theory Spec2Isabelle
  imports Complex_Main "HOL-Library.Sublist"
begin

section \<open>Bounded-concurrency dispatch: \<open>mapWithConcurrency\<close>\<close>

text \<open>
  The source starts \<open>min (max 1 (floor maxConcurrency)) (length items)\<close> asynchronous
  workers. Each worker runs the loop
  \<^verbatim>\<open>
    while (true) {
      const currentIndex = nextIndex;
      if (currentIndex >= items.length) return;
      nextIndex += 1;
      results[currentIndex] = await fn(items[currentIndex], currentIndex);
    }
  \<close>
  JavaScript runs a worker without interruption until it reaches \<open>await\<close>; the promises
  returned by \<open>fn\<close> settle in an order the pool does not control. A pool state therefore
  holds the shared cursor, the result slots and, for each worker, whether it is suspended
  at the \<open>await\<close> for some index, has returned, or has been rejected by \<open>fn\<close>.
  A schedule is the list of worker numbers in the order in which their promises settle.
  The item operation \<open>fn\<close> is a function of the item and its index that yields the value
  the promise is fulfilled with (\<open>Inr\<close>) or the reason it is rejected with (\<open>Inl\<close>); the
  model reads it when the promise settles. The requested concurrency is a real number
  (\<open>NaN\<close> and the infinities are left out).
  The field \<open>claims\<close> is an observation log of the statement \<open>nextIndex += 1\<close>:
  it records which worker took which index, and no transition reads it.
\<close>

datatype 'e worker = Created | Awaiting nat | Returned | Rejected 'e

record ('e, 'r) pool =
  nextIndex :: nat
  results :: "'r option list"
  workers :: "'e worker list"
  claims :: "(nat \<times> nat) list"

definition concurrency_of :: "real \<Rightarrow> int" where
  "concurrency_of maxConcurrency = max 1 \<lfloor>maxConcurrency\<rfloor>"

definition worker_count :: "real \<Rightarrow> nat \<Rightarrow> nat" where
  "worker_count maxConcurrency n = nat (min (concurrency_of maxConcurrency) (int n))"

text \<open>The loop of worker \<open>w\<close> from its head up to the next \<open>await\<close> or \<open>return\<close>.\<close>

definition worker_loop :: "nat \<Rightarrow> nat \<Rightarrow> ('e, 'r) pool \<Rightarrow> ('e, 'r) pool" where
  "worker_loop n w st =
     (let currentIndex = nextIndex st in
      if currentIndex \<ge> n then st\<lparr>workers := (workers st)[w := Returned]\<rparr>
      else st\<lparr>nextIndex := currentIndex + 1,
              workers := (workers st)[w := Awaiting currentIndex],
              claims := claims st @ [(w, currentIndex)]\<rparr>)"

text \<open>
  \<open>new Array(items.length)\<close>, \<open>nextIndex = 0\<close>, then \<open>Array.from\<close> calls \<open>worker()\<close>
  once per worker, in order; each call runs to its first \<open>await\<close>.
\<close>

definition mapWithConcurrency_start :: "'a list \<Rightarrow> real \<Rightarrow> ('e, 'r) pool" where
  "mapWithConcurrency_start items maxConcurrency =
     (let n = length items; k = worker_count maxConcurrency n in
      fold (worker_loop n) [0..<k]
        \<lparr>nextIndex = 0, results = replicate n None, workers = replicate k Created, claims = []\<rparr>)"

text \<open>
  The promise awaited by worker \<open>w\<close> settles: on fulfilment the value is stored in the slot
  of the index the worker holds and the worker goes round its loop; on rejection the
  \<open>await\<close> throws and the worker's own promise is rejected. \<open>None\<close>: worker \<open>w\<close> is not
  suspended at an \<open>await\<close>.
\<close>

definition worker_resume ::
  "('a \<Rightarrow> nat \<Rightarrow> 'e + 'r) \<Rightarrow> 'a list \<Rightarrow> nat \<Rightarrow> ('e, 'r) pool \<Rightarrow> ('e, 'r) pool option" where
  "worker_resume fn items w st =
     (if w < length (workers st) then
        (case workers st ! w of
           Awaiting currentIndex \<Rightarrow>
             (case fn (items ! currentIndex) currentIndex of
                Inr v \<Rightarrow> Some (worker_loop (length items) w
                                 (st\<lparr>results := (results st)[currentIndex := Some v]\<rparr>))
              | Inl e \<Rightarrow> Some (st\<lparr>workers := (workers st)[w := Rejected e]\<rparr>))
         | _ \<Rightarrow> None)
      else None)"

fun pool_exec ::
  "('a \<Rightarrow> nat \<Rightarrow> 'e + 'r) \<Rightarrow> 'a list \<Rightarrow> nat list \<Rightarrow> ('e, 'r) pool \<Rightarrow> ('e, 'r) pool option" where
  "pool_exec fn items [] st = Some st"
| "pool_exec fn items (w # sched) st =
     (case worker_resume fn items w st of
        None \<Rightarrow> None
      | Some st' \<Rightarrow> pool_exec fn items sched st')"

text \<open>The pool states that \<open>mapWithConcurrency\<close> reaches after the settlements \<open>sched\<close>.\<close>

definition mapWithConcurrency_exec ::
  "('a \<Rightarrow> nat \<Rightarrow> 'e + 'r) \<Rightarrow> 'a list \<Rightarrow> real \<Rightarrow> nat list \<Rightarrow> ('e, 'r) pool option" where
  "mapWithConcurrency_exec fn items maxConcurrency sched =
     pool_exec fn items sched (mapWithConcurrency_start items maxConcurrency)"

definition is_awaiting :: "'e worker \<Rightarrow> bool" where
  "is_awaiting w = (case w of Awaiting _ \<Rightarrow> True | _ \<Rightarrow> False)"

definition in_flight :: "('e, 'r) pool \<Rightarrow> nat" where
  "in_flight st = length (filter is_awaiting (workers st))"

text \<open>\<open>Promise.all(workers)\<close> is fulfilled, and \<open>results\<close> returned, once every worker returned.\<close>

definition all_returned :: "('e, 'r) pool \<Rightarrow> bool" where
  "all_returned st = list_all (\<lambda>w. w = Returned) (workers st)"

text \<open>Invariants of the reachable pool states, used in the proofs below.\<close>

definition pool_inv :: "nat \<Rightarrow> nat \<Rightarrow> ('e, 'r) pool \<Rightarrow> bool" where
  "pool_inv n k st \<longleftrightarrow>
     length (results st) = n \<and> length (workers st) = k \<and> nextIndex st \<le> n \<and>
     map snd (claims st) = [0..<nextIndex st] \<and>
     (\<forall>w<k. workers st ! w \<noteq> Created) \<and>
     (\<forall>w<k. workers st ! w = Returned \<longrightarrow> nextIndex st = n) \<and>
     (\<forall>w<k. \<forall>i. workers st ! w = Awaiting i \<longrightarrow> i < nextIndex st) \<and>
     (\<forall>w<k. \<forall>i. workers st ! w = Awaiting i \<longrightarrow> (w, i) \<in> set (claims st)) \<and>
     (\<forall>w<k. \<forall>w'<k. \<forall>i. workers st ! w = Awaiting i \<and> workers st ! w' = Awaiting i \<longrightarrow> w = w')"

definition res_inv :: "('a \<Rightarrow> nat \<Rightarrow> 'e + 'r) \<Rightarrow> 'a list \<Rightarrow> nat \<Rightarrow> ('e, 'r) pool \<Rightarrow> bool" where
  "res_inv fn items k st \<longleftrightarrow>
     (\<forall>w<k. \<forall>e. workers st ! w \<noteq> Rejected e) \<and>
     (\<forall>i. i < nextIndex st \<and> (\<forall>w<k. workers st ! w \<noteq> Awaiting i) \<longrightarrow>
          (\<exists>v. results st ! i = Some v \<and> fn (items ! i) i = Inr v))"

section \<open>Retrying transport: \<open>fetchWithRetry\<close>\<close>

text \<open>
  \<open>config\<close> is read from the environment by \<open>envInt\<close>, which accepts any integer.
  One call of \<open>fetch\<close> either yields a response or throws (a network failure, or the abort
  raised by the attempt's own timer); the outcome of the \<open>attempt\<close>-th call is given by
  an oracle \<open>fetch attempt\<close>, the \<open>attempt\<close>-th draw of \<open>Math.random()\<close> by \<open>rnd attempt\<close>.
  Numbers are modelled as mathematical reals and integers.
\<close>

record config =
  requestTimeoutMs :: int
  maxRetries :: int
  retryBaseMs :: int

record response =
  status :: nat
  bodyText :: string
  contentType :: "string option"

datatype 'e attempt = Responds response | Throws 'e

datatype 'e fetch_error = Thrown 'e | Unreachable

text \<open>
  What the transport is observed to do, in order: build a request body (\<open>makeBody()\<close>),
  issue a request (\<open>fetch\<close>), wait (\<open>sleep\<close>, in milliseconds).
\<close>

datatype event = MakeBody nat | Fetch nat | Sleep int

definition response_ok :: "response \<Rightarrow> bool" where
  "response_ok r \<longleftrightarrow> 200 \<le> status r \<and> status r \<le> 299"

definition retryable :: "nat \<Rightarrow> bool" where
  "retryable s \<longleftrightarrow> s = 429 \<or> s = 500 \<or> s = 502 \<or> s = 503 \<or> s = 504"

definition jitter_factor :: "real \<Rightarrow> real" where
  "jitter_factor random = random * 0.25 + 0.875"

definition jitterMs :: "real \<Rightarrow> real \<Rightarrow> int" where
  "jitterMs random baseMs = (let jitter = jitter_factor random in max 0 (round (baseMs * jitter)))"

definition backoff :: "config \<Rightarrow> nat \<Rightarrow> real" where
  "backoff cfg attempt = real_of_int (retryBaseMs cfg) * 2 ^ (attempt - 1)"

definition maxAttempts :: "config \<Rightarrow> nat" where
  "maxAttempts cfg = nat (max 1 (maxRetries cfg + 1))"

function fetch_loop ::
  "config \<Rightarrow> (nat \<Rightarrow> 'e attempt) \<Rightarrow> (nat \<Rightarrow> real) \<Rightarrow> nat \<Rightarrow>
   ('e fetch_error + response) \<times> event list" where
  "fetch_loop cfg fetch rnd attempt =
     (if attempt \<le> maxAttempts cfg then
        (case fetch attempt of
           Responds r \<Rightarrow>
             if response_ok r then (Inr r, [MakeBody attempt, Fetch attempt])
             else if \<not> retryable (status r) \<or> attempt = maxAttempts cfg
             then (Inr r, [MakeBody attempt, Fetch attempt])
             else
               (let (res, evs) = fetch_loop cfg fetch rnd (attempt + 1) in
                (res, [MakeBody attempt, Fetch attempt,
                       Sleep (jitterMs (rnd attempt) (backoff cfg attempt))] @ evs))
         | Throws e \<Rightarrow>
             if attempt = maxAttempts cfg
             then (Inl (Thrown e), [MakeBody attempt, Fetch attempt])
             else
               (let (res, evs) = fetch_loop cfg fetch rnd (attempt + 1) in
                (res, [MakeBody attempt, Fetch attempt,
                       Sleep (jitterMs (rnd attempt) (backoff cfg attempt))] @ evs)))
      else (Inl Unreachable, []))"
  by pat_completeness auto
termination
  by (relation "measure (\<lambda>(cfg, fetch, rnd, attempt). Suc (maxAttempts cfg) - attempt)") auto

definition fetchWithRetry ::
  "config \<Rightarrow> (nat \<Rightarrow> 'e attempt) \<Rightarrow> (nat \<Rightarrow> real) \<Rightarrow>
   ('e fetch_error + response) \<times> event list" where
  "fetchWithRetry cfg fetch rnd = fetch_loop cfg fetch rnd 1"

definition is_fetch :: "event \<Rightarrow> bool" where
  "is_fetch ev = (case ev of Fetch _ \<Rightarrow> True | _ \<Rightarrow> False)"

definition is_makeBody :: "event \<Rightarrow> bool" where
  "is_makeBody ev = (case ev of MakeBody _ \<Rightarrow> True | _ \<Rightarrow> False)"

definition is_sleep :: "event \<Rightarrow> bool" where
  "is_sleep ev = (case ev of Sleep _ \<Rightarrow> True | _ \<Rightarrow> False)"

text \<open>An attempt that the transport answers with a retry while attempts remain.\<close>

definition retryable_failure :: "'e attempt \<Rightarrow> bool" where
  "retryable_failure a =
     (case a of Responds r \<Rightarrow> \<not> response_ok r \<and> retryable (status r) | Throws e \<Rightarrow> True)"

text \<open>The events of the failed attempts \<open>a, \<dots>, k - 1\<close>, each followed by its backoff sleep.\<close>

definition retried :: "config \<Rightarrow> (nat \<Rightarrow> real) \<Rightarrow> nat \<Rightarrow> nat \<Rightarrow> event list" where
  "retried cfg rnd a k =
     concat (map (\<lambda>j. [MakeBody j, Fetch j, Sleep (jitterMs (rnd j) (backoff cfg j))]) [a..<k])"

text \<open>Attempt \<open>k\<close> is reached: it is within the limit and every earlier attempt was retried.\<close>

definition reached :: "config \<Rightarrow> (nat \<Rightarrow> 'e attempt) \<Rightarrow> nat \<Rightarrow> bool" where
  "reached cfg fetch k \<longleftrightarrow>
     1 \<le> k \<and> k \<le> maxAttempts cfg \<and> list_all (\<lambda>j. retryable_failure (fetch j)) [1..<k]"

text \<open>What the caller receives from the attempt at which the loop stops.\<close>

definition final_result :: "'e attempt \<Rightarrow> 'e fetch_error + response" where
  "final_result a = (case a of Responds r \<Rightarrow> Inr r | Throws e \<Rightarrow> Inl (Thrown e))"

section \<open>Transcript file names: \<open>sanitizeSegment\<close>, \<open>deriveTranscriptBaseName\<close>, \<open>timestampSlug\<close>\<close>

text \<open>
  A JavaScript string is modelled as a \<open>string\<close>, one \<open>char\<close> per code unit, for code
  units below 256; the characters that the regular expressions of the source name are
  ASCII, and every other code unit is outside their character classes.
\<close>

definition lower_chars :: string where
  "lower_chars = ''abcdefghijklmnopqrstuvwxyz''"

definition upper_chars :: string where
  "upper_chars = ''ABCDEFGHIJKLMNOPQRSTUVWXYZ''"

definition digit_chars :: string where
  "digit_chars = ''0123456789''"

text \<open>The character class \<open>[a-zA-Z0-9]\<close>.\<close>

definition is_alnum :: "char \<Rightarrow> bool" where
  "is_alnum c \<longleftrightarrow> c \<in> set (lower_chars @ upper_chars @ digit_chars)"

text \<open>The character class \<open>[a-zA-Z0-9._-]\<close>.\<close>

definition is_safe_char :: "char \<Rightarrow> bool" where
  "is_safe_char c \<longleftrightarrow> is_alnum c \<or> c \<in> set ''._-''"

text \<open>
  White space and line terminators removed by \<open>String.prototype.trim\<close>, among the code
  units below 256: tab, line feed, vertical tab, form feed, carriage return, space and
  no-break space.
\<close>

definition is_space :: "char \<Rightarrow> bool" where
  "is_space c \<longleftrightarrow> c \<in> {CHR 0x09, CHR 0x0A, CHR 0x0B, CHR 0x0C, CHR 0x0D, CHR 0x20, CHR 0xA0}"

definition trim :: "string \<Rightarrow> string" where
  "trim s = rev (dropWhile is_space (rev (dropWhile is_space s)))"

text \<open>\<open>s.replace(/[^a-zA-Z0-9._-]+/g, "_")\<close>: every maximal run of other characters becomes one underscore.\<close>

function replace_unsafe_runs :: "string \<Rightarrow> string" where
  "replace_unsafe_runs [] = []"
| "replace_unsafe_runs (c # cs) =
     (if is_safe_char c then c # replace_unsafe_runs cs
      else CHR ''_'' # replace_unsafe_runs (dropWhile (\<lambda>d. \<not> is_safe_char d) cs))"
  by pat_completeness auto
termination
  by (relation "measure length") (auto simp: less_Suc_eq_le length_dropWhile_le)

text \<open>\<open>s.replace(/_+/g, "_")\<close>.\<close>

function collapse_underscores :: "string \<Rightarrow> string" where
  "collapse_underscores [] = []"
| "collapse_underscores (c # cs) =
     (if c = CHR ''_'' then CHR ''_'' # collapse_underscores (dropWhile (\<lambda>d. d = CHR ''_'') cs)
      else c # collapse_underscores cs)"
  by pat_completeness auto
termination
  by (relation "measure length") (auto simp: less_Suc_eq_le length_dropWhile_le)

text \<open>\<open>s.replace(/^_+|_+$/g, "")\<close>.\<close>

definition strip_underscores :: "string \<Rightarrow> string" where
  "strip_underscores s =
     rev (dropWhile (\<lambda>d. d = CHR ''_'') (rev (dropWhile (\<lambda>d. d = CHR ''_'') s)))"

definition sanitizeSegment :: "string \<Rightarrow> string" where
  "sanitizeSegment segment =
     (let trimmed = trim segment;
          replaced = replace_unsafe_runs trimmed;
          collapsed = collapse_underscores replaced;
          capped = take 120 (strip_underscores collapsed)
      in if capped = [] then ''transcript'' else capped)"

text \<open>
  The match of \<open>/\.([a-zA-Z0-9]+)$/\<close>: the captured group, when the string ends with a dot
  followed by one or more alphanumeric characters.
\<close>

definition ext_match :: "string \<Rightarrow> string option" where
  "ext_match s =
     (let r = rev s; e = takeWhile is_alnum r; rest = dropWhile is_alnum r in
      if e \<noteq> [] \<and> rest \<noteq> [] \<and> hd rest = CHR ''.'' then Some (rev e) else None)"

text \<open>\<open>s.replace(/\.[a-zA-Z0-9]+$/, "")\<close>.\<close>

definition strip_ext :: "string \<Rightarrow> string" where
  "strip_ext s = (case ext_match s of None \<Rightarrow> s | Some e \<Rightarrow> take (length s - length e - 1) s)"

definition toLowerCase_char :: "char \<Rightarrow> char" where
  "toLowerCase_char c = (case map_of (zip upper_chars lower_chars) c of Some l \<Rightarrow> l | None \<Rightarrow> c)"

definition toLowerCase :: "string \<Rightarrow> string" where
  "toLowerCase s = map toLowerCase_char s"

text \<open>\<open>s.split("/")\<close>.\<close>

fun split_slash :: "string \<Rightarrow> string list" where
  "split_slash [] = [[]]"
| "split_slash (c # cs) =
     (if c = CHR ''/'' then [] # split_slash cs
      else (case split_slash cs of [] \<Rightarrow> [[c]] | seg # segs \<Rightarrow> (c # seg) # segs))"

text \<open>
  \<open>path.basename\<close> of Node on POSIX: trailing slashes are dropped, then the part after
  the last slash is taken.
\<close>

definition basename :: "string \<Rightarrow> string" where
  "basename p =
     (let q = dropWhile (\<lambda>c. c = CHR ''/'') (rev p) in rev (takeWhile (\<lambda>c. c \<noteq> CHR ''/'') q))"

text \<open>
  \<open>new URL(url)\<close> is the platform's URL parser: it throws (\<open>None\<close>) or yields a record of
  which the source reads \<open>pathname\<close> and \<open>hostname\<close>. It is a parameter of the model.
\<close>

record url_parts =
  pathname :: string
  hostname :: string

definition baseNameFromUrl :: "(string \<Rightarrow> url_parts option) \<Rightarrow> string \<Rightarrow> string" where
  "baseNameFromUrl parse_url url =
     (case parse_url url of
        None \<Rightarrow> ''audio''
      | Some parsed \<Rightarrow>
          (let segments = filter (\<lambda>seg. seg \<noteq> []) (split_slash (pathname parsed));
               lastSeg = (if segments = [] then hostname parsed else last segments);
               withoutExt = strip_ext lastSeg
           in sanitizeSegment (if length withoutExt > 0 then withoutExt else ''audio'')))"

record source =
  file_path :: "string option"
  url :: "string option"

text \<open>A string option is truthy when it is present and not empty.\<close>

definition truthy_str :: "string option \<Rightarrow> bool" where
  "truthy_str s = (case s of None \<Rightarrow> False | Some v \<Rightarrow> v \<noteq> [])"

definition deriveTranscriptBaseName :: "(string \<Rightarrow> url_parts option) \<Rightarrow> source \<Rightarrow> string" where
  "deriveTranscriptBaseName parse_url src =
     (if truthy_str (file_path src) then sanitizeSegment (strip_ext (basename (the (file_path src))))
      else if truthy_str (url src) then baseNameFromUrl parse_url (the (url src))
      else ''transcript'')"

text \<open>\<open>String(n)\<close> for a natural number, and \<open>padStart(width, "0")\<close>.\<close>

fun string_of_nat :: "nat \<Rightarrow> string" where
  "string_of_nat n =
     (if n < 10 then [digit_chars ! n] else string_of_nat (n div 10) @ [digit_chars ! (n mod 10)])"

definition pad :: "nat \<Rightarrow> nat \<Rightarrow> string" where
  "pad width n = (let s = string_of_nat n in replicate (width - length s) CHR ''0'' @ s)"

text \<open>The UTC fields of a \<open>Date\<close>, as its getters return them (months count from 0).\<close>

record date =
  utcFullYear :: nat
  utcMonth :: nat
  utcDate :: nat
  utcHours :: nat
  utcMinutes :: nat
  utcSeconds :: nat
  utcMilliseconds :: nat

definition timestampSlug :: "date \<Rightarrow> string" where
  "timestampSlug d =
     string_of_nat (utcFullYear d) @ pad 2 (utcMonth d + 1) @ pad 2 (utcDate d) @ ''T'' @
     pad 2 (utcHours d) @ pad 2 (utcMinutes d) @ pad 2 (utcSeconds d) @
     pad 3 (utcMilliseconds d) @ ''Z''"



section \<open>JSON values, exceptions and the file system\<close>

text \<open>
  A value produced by \<open>JSON.parse\<close>. An object is a list of its entries in key order;
  \<open>JNull\<close> also stands for the \<open>null\<close> that the source uses for "no parsed body".
\<close>

datatype json =
    JNull
  | JBool bool
  | JNum real
  | JStr string
  | JArr "json list"
  | JObj "(string \<times> json) list"

text \<open>
  The platform functions the source calls, as parameters of the model:
  \<open>JSON.parse\<close> (\<open>None\<close>: it throws), \<open>JSON.stringify(v, null, 2)\<close>, \<open>new URL\<close>, and
  \<open>Number(v)\<close> for a property that may be absent (\<open>None\<close>: the result is not finite).
\<close>

record lib =
  json_parse :: "string \<Rightarrow> json option"
  json_stringify :: "json \<Rightarrow> string"
  url_parse :: "string \<Rightarrow> url_parts option"
  js_Number :: "json option \<Rightarrow> real option"

text \<open>Truthiness of a value, and property access \<open>v.key\<close> (\<open>None\<close>: undefined).\<close>

fun truthy :: "json \<Rightarrow> bool" where
  "truthy JNull = False"
| "truthy (JBool b) = b"
| "truthy (JNum n) = (n \<noteq> 0)"
| "truthy (JStr s) = (s \<noteq> [])"
| "truthy (JArr _) = True"
| "truthy (JObj _) = True"

fun get_field :: "json \<Rightarrow> string \<Rightarrow> json option" where
  "get_field (JObj entries) key = map_of entries key"
| "get_field _ key = None"

definition tryParseJson :: "lib \<Rightarrow> string \<Rightarrow> json" where
  "tryParseJson l text = (case json_parse l text of Some v \<Rightarrow> v | None \<Rightarrow> JNull)"

text \<open>
  What the source throws: \<open>new Error(message)\<close> (also the exceptions of \<open>fetch\<close>), an error
  of Node's file system with its \<open>code\<close>, \<open>FileInputError\<close> and \<open>HttpError\<close>.
\<close>

datatype exn =
    Error string
  | SystemError string string
  | FileInputError string string "(string \<times> json) list option"
  | HttpError nat string string

fun toErrorMessage :: "exn \<Rightarrow> string" where
  "toErrorMessage (Error message) = message"
| "toErrorMessage (SystemError code message) = message"
| "toErrorMessage (FileInputError code message details) = message"
| "toErrorMessage (HttpError st message body) = message"

definition quote :: char where
  "quote = CHR 0x27"

definition newline :: char where
  "newline = CHR 0x0A"

text \<open>
  The file system as far as the source uses it: a path holds a file with its contents, a
  directory, or nothing. \<open>fs.mkdir(p, {recursive: true})\<close> fails only on an existing
  file; \<open>fs.stat\<close> succeeds on any existing entry; \<open>fs.writeFile\<close> with flag \<open>wx\<close>
  fails with \<open>EEXIST\<close> when the path exists and creates the file otherwise.
\<close>

datatype node = File string | Directory

type_synonym filesystem = "string \<Rightarrow> node option"

definition ensureDir :: "filesystem \<Rightarrow> string \<Rightarrow> exn + filesystem" where
  "ensureDir fs dirPath =
     (case fs dirPath of
        Some (File _) \<Rightarrow>
          Inl (SystemError ''EEXIST'' (''EEXIST: file already exists, mkdir '' @ [quote] @ dirPath @ [quote]))
      | _ \<Rightarrow> Inr (fs(dirPath \<mapsto> Directory)))"

definition exists :: "filesystem \<Rightarrow> string \<Rightarrow> bool" where
  "exists fs filePath \<longleftrightarrow> fs filePath \<noteq> None"

definition writeFile_wx :: "filesystem \<Rightarrow> string \<Rightarrow> string \<Rightarrow> exn + filesystem" where
  "writeFile_wx fs p contents =
     (case fs p of
        Some _ \<Rightarrow>
          Inl (SystemError ''EEXIST'' (''EEXIST: file already exists, open '' @ [quote] @ p @ [quote]))
      | None \<Rightarrow> Inr (fs(p \<mapsto> File contents)))"

text \<open>The size in bytes of the UTF-8 encoding of a string of code units below 256.\<close>

definition utf8_size :: "string \<Rightarrow> nat" where
  "utf8_size s = sum_list (map (\<lambda>c. if (of_char c :: nat) < 128 then 1 else 2) s)"

definition stat_size :: "filesystem \<Rightarrow> string \<Rightarrow> nat" where
  "stat_size fs p = (case fs p of Some (File contents) \<Rightarrow> utf8_size contents | _ \<Rightarrow> 0)"

section \<open>Reserving and writing an artifact: \<open>reserveTranscriptPath\<close>, \<open>saveTranscriptArtifact\<close>\<close>

definition TRANSCRIPTS_DIR :: string where
  "TRANSCRIPTS_DIR = ''transcripts''"

text \<open>
  \<open>path.join(dir, name)\<close> for an absolute, normalised \<open>dir\<close> and a \<open>name\<close> that is one
  path segment other than \<open>.\<close> and \<open>..\<close>; \<open>path.resolve(name)\<close> joins the working directory
  (as \<open>process.cwd()\<close> returns it) with \<open>name\<close>.
\<close>

definition path_join :: "string \<Rightarrow> string \<Rightarrow> string" where
  "path_join dir name = (if dir = ''/'' then dir @ name else dir @ ''/'' @ name)"

definition path_resolve :: "string \<Rightarrow> string \<Rightarrow> string" where
  "path_resolve cwd name = path_join cwd name"

datatype extension = Txt | Json

fun ext_name :: "extension \<Rightarrow> string" where
  "ext_name Txt = ''txt''"
| "ext_name Json = ''json''"

text \<open>The candidate \<open>`${base}__${ts}__${i}.${ext}`\<close> under the directory.\<close>

definition candidate_path :: "string \<Rightarrow> string \<Rightarrow> string \<Rightarrow> string \<Rightarrow> nat \<Rightarrow> string" where
  "candidate_path dirPath base ts ext i =
     path_join dirPath (base @ ''__'' @ ts @ ''__'' @ string_of_nat i @ ''.'' @ ext)"

text \<open>The loop \<open>for (let i = 2; i <= 10_000; i++)\<close> over the suffixed candidates.\<close>

function find_candidate ::
  "filesystem \<Rightarrow> string \<Rightarrow> string \<Rightarrow> string \<Rightarrow> string \<Rightarrow> nat \<Rightarrow> string option" where
  "find_candidate fs dirPath base ts ext i =
     (if i \<le> 10000 then
        (let candidate = candidate_path dirPath base ts ext i
         in if \<not> exists fs candidate then Some candidate
            else find_candidate fs dirPath base ts ext (i + 1))
      else None)"
  by pat_completeness auto
termination
  by (relation "measure (\<lambda>(fs, dirPath, base, ts, ext, i). 10001 - i)") auto

text \<open>The message \<open>`save_as extension '.${providedExt}' does not match expected '.${ext}'.`\<close>\<close>

definition mismatch_message :: "string \<Rightarrow> string \<Rightarrow> string" where
  "mismatch_message providedExt ext =
     ''save_as extension '' @ [quote] @ ''.'' @ providedExt @ [quote] @
     '' does not match expected '' @ [quote] @ ''.'' @ ext @ [quote] @ ''.''"

definition collisions_message :: string where
  "collisions_message = ''Unable to reserve a transcript filename (too many collisions).''"

definition reserveTranscriptPath ::
  "string \<Rightarrow> date \<Rightarrow> filesystem \<Rightarrow> string \<Rightarrow> extension \<Rightarrow> string option \<Rightarrow>
   (exn + string) \<times> filesystem" where
  "reserveTranscriptPath cwd now fs baseName extension saveAs =
     (let dirPath = path_resolve cwd TRANSCRIPTS_DIR in
      case ensureDir fs dirPath of
        Inl e \<Rightarrow> (Inl e, fs)
      | Inr fs1 \<Rightarrow>
          (let ext = ext_name extension in
           if truthy_str saveAs then
             (let raw = trim (the saveAs);
                  safe = sanitizeSegment raw;
                  providedExt = map_option toLowerCase (ext_match safe)
              in if providedExt \<noteq> None \<and> the providedExt \<noteq> ext
                 then (Inl (Error (mismatch_message (the providedExt) ext)), fs1)
                 else (let filename = (if providedExt \<noteq> None then safe else safe @ ''.'' @ ext)
                       in (Inr (path_join dirPath filename), fs1)))
           else
             (let base = sanitizeSegment baseName;
                  ts = timestampSlug now;
                  first = path_join dirPath (base @ ''__'' @ ts @ ''.'' @ ext)
              in if \<not> exists fs1 first then (Inr first, fs1)
                 else (case find_candidate fs1 dirPath base ts ext 2 of
                         Some candidate \<Rightarrow> (Inr candidate, fs1)
                       | None \<Rightarrow>
                           (Inl (Error collisions_message), fs1)))))"


datatype GroqAudioResponseFormat = JSON | VERBOSE_JSON | TEXT

fun format_name :: "GroqAudioResponseFormat \<Rightarrow> string" where
  "format_name JSON = ''json''"
| "format_name VERBOSE_JSON = ''verbose_json''"
| "format_name TEXT = ''text''"

text \<open>\<open>Date.prototype.toISOString\<close> for a year of at most four digits.\<close>

definition toISOString :: "date \<Rightarrow> string" where
  "toISOString d =
     pad 4 (utcFullYear d) @ ''-'' @ pad 2 (utcMonth d + 1) @ ''-'' @ pad 2 (utcDate d) @ ''T'' @
     pad 2 (utcHours d) @ '':'' @ pad 2 (utcMinutes d) @ '':'' @ pad 2 (utcSeconds d) @ ''.'' @
     pad 3 (utcMilliseconds d) @ ''Z''"

record save_options =
  opt_source :: source
  opt_responseFormat :: GroqAudioResponseFormat
  opt_rawText :: string
  opt_rawJson :: json
  opt_transcriptText :: string
  opt_model :: string
  opt_request :: json
  opt_response :: json
  opt_metadata :: "json option"
  opt_saveAs :: "string option"

record artifact =
  saved_path :: string
  bytes_written :: nat
  format :: string
  mime_type :: string

definition extension_of :: "GroqAudioResponseFormat \<Rightarrow> extension" where
  "extension_of responseFormat = (if responseFormat = TEXT then Txt else Json)"

definition endsWith_newline :: "string \<Rightarrow> bool" where
  "endsWith_newline s \<longleftrightarrow> s \<noteq> [] \<and> last s = newline"

text \<open>The object literal \<open>payload\<close> of the structured artifact.\<close>

definition artifact_payload :: "lib \<Rightarrow> date \<Rightarrow> save_options \<Rightarrow> json" where
  "artifact_payload l now options =
     (let groqResponse = (if opt_rawJson options \<noteq> JNull then opt_rawJson options
                          else tryParseJson l (opt_rawText options))
      in JObj ([(''saved_at'', JStr (toISOString now)),
                (''model'', JStr (opt_model options)),
                (''transcript'', JStr (opt_transcriptText options)),
                (''request'', opt_request options),
                (''response'', opt_response options)] @
               (case opt_metadata options of Some m \<Rightarrow> [(''metadata'', m)] | None \<Rightarrow> []) @
               [(''groq_response'', groqResponse),
                (''groq_raw_text'', JStr (opt_rawText options))]))"

definition artifact_contents :: "lib \<Rightarrow> date \<Rightarrow> save_options \<Rightarrow> string" where
  "artifact_contents l now options =
     (if extension_of (opt_responseFormat options) = Txt
      then opt_transcriptText options @
           (if endsWith_newline (opt_transcriptText options) then [] else [newline])
      else json_stringify l (artifact_payload l now options) @ [newline])"

definition saveTranscriptArtifact ::
  "lib \<Rightarrow> string \<Rightarrow> date \<Rightarrow> filesystem \<Rightarrow> save_options \<Rightarrow> (exn + artifact) \<times> filesystem" where
  "saveTranscriptArtifact l cwd now fs options =
     (let extension = extension_of (opt_responseFormat options);
          baseName = deriveTranscriptBaseName (url_parse l) (opt_source options)
      in case reserveTranscriptPath cwd now fs baseName extension (opt_saveAs options) of
           (Inl e, fs1) \<Rightarrow> (Inl e, fs1)
         | (Inr outputPath, fs1) \<Rightarrow>
             (let format = (if extension = Txt then ''text'' else ''json'');
                  mime_type = (if extension = Txt then ''text/plain'' else ''application/json'');
                  contents = artifact_contents l now options
              in case writeFile_wx fs1 outputPath contents of
                   Inl e \<Rightarrow> (Inl e, fs1)
                 | Inr fs2 \<Rightarrow>
                     (Inr \<lparr>saved_path = outputPath, bytes_written = stat_size fs2 outputPath,
                           format = format, mime_type = mime_type\<rparr>, fs2)))"

section \<open>Processing one item: \<open>groqCreateTranscription\<close>, \<open>extractTranscript\<close>, \<open>transcribeOne\<close>\<close>

datatype OutputFormat = OutputFormat_TEXT | OutputFormat_MARKDOWN | OutputFormat_JSON

datatype TimestampGranularity = WORD | SEGMENT

fun granularity_name :: "TimestampGranularity \<Rightarrow> string" where
  "granularity_name WORD = ''word''"
| "granularity_name SEGMENT = ''segment''"

text \<open>\<open>TranscribeAudioRequest\<close>: the source, the save-name and the shared options.\<close>

record named_source = source +
  save_as :: "string option"

record request = named_source +
  model :: "string option"
  language :: "string option"
  prompt :: "string option"
  temperature :: real
  response_format :: GroqAudioResponseFormat
  timestamp_granularities :: "TimestampGranularity list"
  include_metadata :: bool
  output_format :: OutputFormat

text \<open>\<open>s.includes(sub)\<close>.\<close>

fun str_includes :: "string \<Rightarrow> string \<Rightarrow> bool" where
  "str_includes [] sub = (sub = [])"
| "str_includes (c # cs) sub = (prefix sub (c # cs) \<or> str_includes cs sub)"

text \<open>
  \<open>groqCreateTranscription\<close> after the transport has run: a thrown exception passes
  through, a response that is not 2xx becomes an \<open>HttpError\<close>, and the body is parsed only
  when the content type names JSON.
\<close>

definition rawJson_of :: "lib \<Rightarrow> response \<Rightarrow> json" where
  "rawJson_of l response =
     (case contentType response of
        Some ct \<Rightarrow> if str_includes ct ''application/json''
                   then tryParseJson l (bodyText response) else JNull
      | None \<Rightarrow> JNull)"

definition groqCreateTranscription ::
  "lib \<Rightarrow> config \<Rightarrow> (nat \<Rightarrow> exn attempt) \<Rightarrow> (nat \<Rightarrow> real) \<Rightarrow>
   exn + (string \<times> json \<times> string option)" where
  "groqCreateTranscription l cfg fetch rnd =
     (case fst (fetchWithRetry cfg fetch rnd) of
        Inl (Thrown e) \<Rightarrow> Inl e
      | Inl Unreachable \<Rightarrow> Inl (Error ''Unreachable: fetchWithRetry exhausted attempts.'')
      | Inr response \<Rightarrow>
          if \<not> response_ok response
          then Inl (HttpError (status response)
                      (''Groq API error ('' @ string_of_nat (status response) @ '').'')
                      (bodyText response))
          else Inr (bodyText response, rawJson_of l response, contentType response))"

definition is_JStr :: "json option \<Rightarrow> bool" where
  "is_JStr v = (case v of Some (JStr _) \<Rightarrow> True | _ \<Rightarrow> False)"

definition the_JStr :: "json option \<Rightarrow> string" where
  "the_JStr v = (case v of Some (JStr s) \<Rightarrow> s | _ \<Rightarrow> [])"

definition extractTranscript ::
  "lib \<Rightarrow> GroqAudioResponseFormat \<Rightarrow> string \<Rightarrow> json \<Rightarrow> string option \<times> json" where
  "extractTranscript l responseFormat rawText rawJson =
     (if responseFormat = TEXT then (Some rawText, JNull)
      else
        (let parsedJson = (if rawJson \<noteq> JNull then rawJson else tryParseJson l rawText) in
         if truthy parsedJson \<and> is_JStr (get_field parsedJson ''text'')
         then (Some (the_JStr (get_field parsedJson ''text'')), parsedJson)
         else (None, parsedJson)))"

text \<open>Lines 231 and 232 of \<open>transcribeOne\<close>: \<open>transcript ?? rawText\<close>.\<close>

definition transcriptText_of ::
  "lib \<Rightarrow> GroqAudioResponseFormat \<Rightarrow> string \<Rightarrow> json \<Rightarrow> string" where
  "transcriptText_of l responseFormat rawText rawJson =
     (case fst (extractTranscript l responseFormat rawText rawJson) of
        Some transcript \<Rightarrow> transcript
      | None \<Rightarrow> rawText)"

text \<open>The normalised segment and word entries of the extended metadata.\<close>

definition array_field :: "json \<Rightarrow> string \<Rightarrow> json list" where
  "array_field v key = (case get_field v key of Some (JArr xs) \<Rightarrow> xs | _ \<Rightarrow> [])"

definition segment_entry :: "lib \<Rightarrow> json \<Rightarrow> json option" where
  "segment_entry l s =
     (let idv = (case get_field s ''id'' of Some (JNum n) \<Rightarrow> [(''id'', JNum n)] | _ \<Rightarrow> []);
          start = js_Number l (get_field s ''start'');
          finish = js_Number l (get_field s ''end'');
          text = the_JStr (get_field s ''text'')
      in if start \<noteq> None \<and> finish \<noteq> None \<and> length text > 0
         then Some (JObj (idv @ [(''start'', JNum (the start)), (''end'', JNum (the finish)),
                                 (''text'', JStr text)]))
         else None)"

definition word_entry :: "lib \<Rightarrow> json \<Rightarrow> json option" where
  "word_entry l w =
     (let word = the_JStr (get_field w ''word'');
          start = js_Number l (get_field w ''start'');
          finish = js_Number l (get_field w ''end'')
      in if length word > 0 \<and> start \<noteq> None \<and> finish \<noteq> None
         then Some (JObj [(''word'', JStr word), (''start'', JNum (the start)),
                          (''end'', JNum (the finish))])
         else None)"

definition build_metadata :: "lib \<Rightarrow> json \<Rightarrow> json" where
  "build_metadata l parsedJson =
     (let segments = List.map_filter (segment_entry l) (array_field parsedJson ''segments'');
          wordList = List.map_filter (word_entry l) (array_field parsedJson ''words'')
      in JObj ((case get_field parsedJson ''language'' of
                  Some (JStr s) \<Rightarrow> [(''language'', JStr s)] | _ \<Rightarrow> []) @
               (case get_field parsedJson ''duration'' of
                  Some (JNum n) \<Rightarrow> [(''duration'', JNum n)] | _ \<Rightarrow> []) @
               [(''segments_count'', JNum (real (length segments))),
                (''words_count'', JNum (real (length wordList))),
                (''segments'', JArr segments),
                (''words'', JArr wordList)]))"

definition is_object :: "json \<Rightarrow> bool" where
  "is_object v = (case v of JObj _ \<Rightarrow> True | JArr _ \<Rightarrow> True | _ \<Rightarrow> False)"

definition str_entry :: "string \<Rightarrow> string option \<Rightarrow> (string \<times> json) list" where
  "str_entry key v = (if truthy_str v then [(key, JStr (the v))] else [])"

definition requestStructured :: "request \<Rightarrow> json" where
  "requestStructured params =
     JObj (str_entry ''file_path'' (file_path params) @ str_entry ''url'' (url params) @
           str_entry ''language'' (language params) @ str_entry ''prompt'' (prompt params) @
           [(''temperature'', JNum (temperature params)),
            (''response_format'', JStr (format_name (response_format params))),
            (''timestamp_granularities'',
               JArr (map (\<lambda>g. JStr (granularity_name g)) (timestamp_granularities params)))])"

definition responseStructured :: "string option \<Rightarrow> json" where
  "responseStructured ct = JObj [(''content_type'', (case ct of Some c \<Rightarrow> JStr c | None \<Rightarrow> JNull))]"

text \<open>
  What one call of \<open>transcribeOne\<close> meets outside the program: the library, the
  configuration, the answers of the endpoint and the random draws, the working directory,
  the clock, and the outcome of \<open>readAudioFile\<close> (file name and bytes, or the exception).
\<close>

record env =
  e_lib :: lib
  e_cfg :: config
  e_fetch :: "nat \<Rightarrow> exn attempt"
  e_rnd :: "nat \<Rightarrow> real"
  e_cwd :: string
  e_now :: date
  e_readAudioFile :: "string \<Rightarrow> exn + (string \<times> string)"

record tool_result =
  contentText :: string
  structured :: json
  isError :: bool

text \<open>The outer \<open>catch\<close> of \<open>transcribeOne\<close>.\<close>

fun error_result :: "exn \<Rightarrow> tool_result" where
  "error_result (FileInputError code message details) =
     \<lparr>contentText = ''Error: '' @ message,
      structured = JObj ([(''error'', JStr code), (''message'', JStr message)] @
                         (case details of Some d \<Rightarrow> [(''details'', JObj d)] | None \<Rightarrow> [])),
      isError = True\<rparr>"
| "error_result (HttpError st message body) =
     \<lparr>contentText = trim (''Error: Groq API request failed (status '' @ string_of_nat st @ ''). '' @ body),
      structured = JObj [(''error'', JStr ''groq_api_error''), (''status'', JNum (real st)),
                         (''body'', JStr body)],
      isError = True\<rparr>"
| "error_result e =
     \<lparr>contentText = ''Error: '' @ toErrorMessage e,
      structured = JObj [(''error'', JStr ''unexpected_error''), (''message'', JStr (toErrorMessage e))],
      isError = True\<rparr>"

text \<open>The entries that record the outcome of the save, in the order the source assigns them.\<close>

definition save_entries :: "GroqAudioResponseFormat \<Rightarrow> exn + artifact \<Rightarrow> (string \<times> json) list" where
  "save_entries responseFormat saveResult =
     (case saveResult of
        Inr a \<Rightarrow>
          [(''saved'', JBool True), (''saved_format'', JStr (format a)),
           (''saved_mime_type'', JStr (mime_type a)), (''saved_path'', JStr (saved_path a)),
           (''bytes_written'', JNum (real (bytes_written a)))]
      | Inl e \<Rightarrow>
          [(''saved'', JBool False),
           (''saved_format'', JStr (if responseFormat = TEXT then ''text'' else ''json'')),
           (''saved_mime_type'', JStr (if responseFormat = TEXT then ''text/plain'' else ''application/json'')),
           (''save_error'', JStr (toErrorMessage e))])"

definition render_content :: "lib \<Rightarrow> request \<Rightarrow> string \<Rightarrow> json \<Rightarrow> string" where
  "render_content l params transcriptText baseStructured =
     (case output_format params of
        OutputFormat_JSON \<Rightarrow> json_stringify l baseStructured
      | OutputFormat_MARKDOWN \<Rightarrow>
          ''# Transcription'' @ [newline, newline] @ transcriptText @ [newline] @
          (case (if include_metadata params then get_field baseStructured ''metadata'' else None) of
             Some m \<Rightarrow> [newline] @ ''## Metadata'' @ [newline, newline] @ ''```json'' @ [newline] @
                       json_stringify l m @ [newline] @ ''```'' @ [newline]
           | None \<Rightarrow> [])
      | OutputFormat_TEXT \<Rightarrow> transcriptText)"

text \<open>The argument that \<open>transcribeOne\<close> passes to \<open>saveTranscriptArtifact\<close>.\<close>

definition modelName_of :: "request \<Rightarrow> string" where
  "modelName_of params = (case model params of Some m \<Rightarrow> m | None \<Rightarrow> ''whisper-large-v3-turbo'')"

definition metadata_of :: "lib \<Rightarrow> request \<Rightarrow> string \<Rightarrow> json \<Rightarrow> json option" where
  "metadata_of l params rawText rawJson =
     (let parsedJson = snd (extractTranscript l (response_format params) rawText rawJson)
      in if include_metadata params \<and> truthy parsedJson \<and> is_object parsedJson
         then Some (build_metadata l parsedJson) else None)"

definition save_options_of :: "lib \<Rightarrow> request \<Rightarrow> string \<Rightarrow> json \<Rightarrow> string option \<Rightarrow> save_options" where
  "save_options_of l params rawText rawJson ct =
     \<lparr>opt_source = \<lparr>file_path = (if truthy_str (file_path params) then file_path params else None),
                     url = (if truthy_str (url params) then url params else None)\<rparr>,
      opt_responseFormat = response_format params,
      opt_rawText = rawText,
      opt_rawJson = rawJson,
      opt_transcriptText = transcriptText_of l (response_format params) rawText rawJson,
      opt_model = modelName_of params,
      opt_request = requestStructured params,
      opt_response = responseStructured ct,
      opt_metadata = (if include_metadata params then metadata_of l params rawText rawJson else None),
      opt_saveAs = save_as params\<rparr>"

text \<open>\<open>transcribeOne\<close> from the point where the endpoint has answered with a 2xx response.\<close>

definition transcribed ::
  "env \<Rightarrow> filesystem \<Rightarrow> request \<Rightarrow> string \<Rightarrow> json \<Rightarrow> string option \<Rightarrow> tool_result \<times> filesystem" where
  "transcribed en fs params rawText rawJson ct =
     (let l = e_lib en;
          transcriptText = transcriptText_of l (response_format params) rawText rawJson;
          base = [(''model'', JStr (modelName_of params)), (''transcript'', JStr transcriptText),
                  (''truncated'', JBool False), (''request'', requestStructured params),
                  (''response'', responseStructured ct)] @
                 (case metadata_of l params rawText rawJson of
                    Some m \<Rightarrow> [(''metadata'', m)] | None \<Rightarrow> []);
          (saveResult, fs') =
             saveTranscriptArtifact l (e_cwd en) (e_now en) fs
               (save_options_of l params rawText rawJson ct);
          baseStructured = JObj (base @ save_entries (response_format params) saveResult)
      in (\<lparr>contentText = render_content l params transcriptText baseStructured,
           structured = baseStructured, isError = False\<rparr>, fs'))"


text \<open>The exception of \<open>readAudioFile\<close>, when a local path is given and reading it fails.\<close>

definition read_failure :: "env \<Rightarrow> request \<Rightarrow> exn option" where
  "read_failure en params =
     (case file_path params of
        Some p \<Rightarrow> (case e_readAudioFile en p of Inl e \<Rightarrow> Some e | Inr f \<Rightarrow> None)
      | None \<Rightarrow> None)"

definition transcribeOne :: "env \<Rightarrow> filesystem \<Rightarrow> request \<Rightarrow> tool_result \<times> filesystem" where
  "transcribeOne en fs params =
     (case read_failure en params of
        Some e \<Rightarrow> (error_result e, fs)
      | None \<Rightarrow>
          (case groqCreateTranscription (e_lib en) (e_cfg en) (e_fetch en) (e_rnd en) of
             Inl e \<Rightarrow> (error_result e, fs)
           | Inr (rawText, rawJson, ct) \<Rightarrow> transcribed en fs params rawText rawJson ct))"

section \<open>Results of a batch: the callback of \<open>transcribeAudioTool\<close> and its summary\<close>

record item = named_source +
  item_id :: "string option"

record list_error =
  err_code :: string
  err_message :: string
  err_status :: "nat option"
  err_body :: "string option option"
  err_body_truncated :: "bool option"

datatype list_result =
    ListResultSuccess nat "string option" source json
  | ListResultFailure nat "string option" source list_error

fun result_ok :: "list_result \<Rightarrow> bool" where
  "result_ok (ListResultSuccess index ident src output) = True"
| "result_ok (ListResultFailure index ident src err) = False"

definition ERROR_BODY_LIMIT :: nat where
  "ERROR_BODY_LIMIT = 4000"

definition truncateBody :: "string option \<Rightarrow> string option \<times> bool" where
  "truncateBody body =
     (case body of
        None \<Rightarrow> (None, False)
      | Some b \<Rightarrow>
          if length b \<le> ERROR_BODY_LIMIT then (Some b, False)
          else (Some (take ERROR_BODY_LIMIT b @ [newline, newline] @ ''[truncated]''), True))"

definition asListFailure :: "nat \<Rightarrow> string option \<Rightarrow> source \<Rightarrow> tool_result \<Rightarrow> list_result" where
  "asListFailure index ident src result =
     (let code = (case get_field (structured result) ''error'' of Some (JStr c) \<Rightarrow> c | _ \<Rightarrow> ''error'');
          st = (case get_field (structured result) ''status'' of
                  Some (JNum n) \<Rightarrow> if n \<noteq> 0 then Some (nat \<lfloor>n\<rfloor>) else None
                | _ \<Rightarrow> None);
          message = (case get_field (structured result) ''message'' of
                       Some (JStr m) \<Rightarrow> m | _ \<Rightarrow> contentText result);
          rawBody = (case get_field (structured result) ''body'' of
                       Some (JStr b) \<Rightarrow> Some (Some b) | Some JNull \<Rightarrow> Some None | _ \<Rightarrow> None)
      in ListResultFailure index (if truthy_str ident then ident else None) src
           \<lparr>err_code = code, err_message = message, err_status = st,
            err_body = map_option (\<lambda>b. fst (truncateBody b)) rawBody,
            err_body_truncated = map_option (\<lambda>b. snd (truncateBody b)) rawBody\<rparr>)"

text \<open>
  The callback that \<open>transcribeAudioTool\<close> hands to \<open>mapWithConcurrency\<close>: the request is the
  shared options with the item's source and save-name, and the outcome is tagged.
\<close>

definition item_request :: "request \<Rightarrow> item \<Rightarrow> request" where
  "item_request shared it =
     shared\<lparr>file_path := (if truthy_str (file_path it) then file_path it else None),
            url := (if truthy_str (url it) then url it else None),
            save_as := (if truthy_str (save_as it) then save_as it else None)\<rparr>"

definition item_callback ::
  "env \<Rightarrow> filesystem \<Rightarrow> request \<Rightarrow> item \<Rightarrow> nat \<Rightarrow> list_result \<times> filesystem" where
  "item_callback en fs shared it index =
     (let src = \<lparr>file_path = (if truthy_str (file_path it) then file_path it else None),
                 url = (if truthy_str (url it) then url it else None)\<rparr>;
          (result, fs') = transcribeOne en fs (item_request shared it)
      in if isError result then (asListFailure index (item_id it) src result, fs')
         else (ListResultSuccess index (if truthy_str (item_id it) then item_id it else None) src
                 (structured result), fs'))"

record summary =
  total_count :: nat
  ok_count :: nat
  failed_count :: nat

definition summarize :: "list_result list \<Rightarrow> summary" where
  "summarize rs =
     (let okCount = length (filter result_ok rs)
      in \<lparr>total_count = length rs, ok_count = okCount, failed_count = length rs - okCount\<rparr>)"

section \<open>Example inputs\<close>

text \<open>
  Concrete inputs at which the theorems below are instantiated: a clock reading, a URL
  parser and a JSON library that answer as the platform does on the few strings used, an
  endpoint that answers one request with a 200 response, and a request for one URL.
\<close>

definition example_now :: date where
  "example_now = \<lparr>utcFullYear = 2026, utcMonth = 0, utcDate = 5, utcHours = 7, utcMinutes = 8,
                   utcSeconds = 9, utcMilliseconds = 42\<rparr>"

definition example_url_parse :: "string \<Rightarrow> url_parts option" where
  "example_url_parse u =
     (if u = ''https://example.com/a/audio.wav''
      then Some \<lparr>pathname = ''/a/audio.wav'', hostname = ''example.com''\<rparr>
      else if u = ''https://example.com/''
      then Some \<lparr>pathname = ''/'', hostname = ''example.com''\<rparr>
      else if u = ''https://example.com/.mp3''
      then Some \<lparr>pathname = ''/.mp3'', hostname = ''example.com''\<rparr>
      else None)"

definition example_body :: string where
  \<open>example_body = ''{"text":"ok"}''\<close>

definition example_json :: json where
  "example_json = JObj [(''text'', JStr ''ok'')]"

definition example_document :: json where
  "example_document =
     JObj [(''saved_at'', JStr ''2026-01-05T07:08:09.042Z''),
           (''model'', JStr ''whisper-large-v3-turbo''),
           (''transcript'', JStr ''ok''),
           (''request'', JObj [(''url'', JStr ''https://example.com/a/audio.wav''),
                               (''temperature'', JNum 0),
                               (''response_format'', JStr ''json''),
                               (''timestamp_granularities'', JArr [])]),
           (''response'', JObj [(''content_type'', JStr ''application/json'')]),
           (''groq_response'', example_json),
           (''groq_raw_text'', JStr example_body)]"

definition example_document_text :: string where
  \<open>example_document_text =
     ''{'' @ [newline] @
     ''  "saved_at": "2026-01-05T07:08:09.042Z",'' @ [newline] @
     ''  "model": "whisper-large-v3-turbo",'' @ [newline] @
     ''  "transcript": "ok",'' @ [newline] @
     ''  "request": {'' @ [newline] @
     ''    "url": "https://example.com/a/audio.wav",'' @ [newline] @
     ''    "temperature": 0,'' @ [newline] @
     ''    "response_format": "json",'' @ [newline] @
     ''    "timestamp_granularities": []'' @ [newline] @
     ''  },'' @ [newline] @
     ''  "response": {'' @ [newline] @
     ''    "content_type": "application/json"'' @ [newline] @
     ''  },'' @ [newline] @
     ''  "groq_response": {'' @ [newline] @
     ''    "text": "ok"'' @ [newline] @
     ''  },'' @ [newline] @
     ''  "groq_raw_text": "{'' @ [CHR 0x5C] @ ''"text'' @ [CHR 0x5C] @ ''":'' @ [CHR 0x5C] @ ''"ok'' @
        [CHR 0x5C] @ ''"}"'' @ [newline] @
     ''}''\<close>

definition example_parse :: "string \<Rightarrow> json option" where
  "example_parse s =
     (if s = example_body then Some example_json
      else if s = example_document_text @ [newline] then Some example_document
      else None)"

definition example_stringify :: "json \<Rightarrow> string" where
  "example_stringify v = (if v = example_document then example_document_text else ''null'')"

definition example_Number :: "json option \<Rightarrow> real option" where
  "example_Number v = (case v of Some (JNum n) \<Rightarrow> Some n | _ \<Rightarrow> None)"

definition example_lib :: lib where
  "example_lib = \<lparr>json_parse = example_parse, json_stringify = example_stringify,
                   url_parse = example_url_parse, js_Number = example_Number\<rparr>"

definition example_config :: config where
  "example_config = \<lparr>requestTimeoutMs = 300000, maxRetries = 2, retryBaseMs = 250\<rparr>"

definition example_response :: response where
  "example_response = \<lparr>status = 200, bodyText = example_body, contentType = Some ''application/json''\<rparr>"

definition example_fetch :: "nat \<Rightarrow> exn attempt" where
  "example_fetch attempt = Responds example_response"

definition example_rnd :: "nat \<Rightarrow> real" where
  "example_rnd attempt = 0"

definition example_readAudioFile :: "string \<Rightarrow> exn + (string \<times> string)" where
  "example_readAudioFile p =
     Inl (FileInputError ''file_not_found'' ''Audio file not found.'' None)"

definition example_env :: env where
  "example_env = \<lparr>e_lib = example_lib, e_cfg = example_config, e_fetch = example_fetch,
                   e_rnd = example_rnd, e_cwd = ''/work'', e_now = example_now,
                   e_readAudioFile = example_readAudioFile\<rparr>"

definition example_request :: request where
  "example_request =
     \<lparr>file_path = None, url = Some ''https://example.com/a/audio.wav'', save_as = None,
      model = Some ''whisper-large-v3-turbo'', language = None, prompt = None, temperature = 0,
      response_format = JSON, timestamp_granularities = [], include_metadata = False,
      output_format = OutputFormat_TEXT\<rparr>"

definition example_item :: item where
  "example_item = \<lparr>file_path = None, url = Some ''https://example.com/a/audio.wav'',
                    save_as = None, item_id = Some ''a''\<rparr>"



definition example_ok_fetch :: "nat \<Rightarrow> unit attempt" where
  "example_ok_fetch attempt = Responds \<lparr>status = 200, bodyText = ''ok'', contentType = Some ''text/plain''\<rparr>"

section \<open>Proofs: bounded-concurrency dispatch\<close>

lemma start_fold:
  "j \<le> k \<Longrightarrow> k \<le> n \<Longrightarrow>
   fold (worker_loop n) [0..<j]
     \<lparr>nextIndex = 0, results = rs, workers = replicate k Created, claims = []\<rparr>
   = \<lparr>nextIndex = j, results = rs,
      workers = map Awaiting [0..<j] @ replicate (k - j) Created,
      claims = map (\<lambda>w. (w, w)) [0..<j]\<rparr>"
proof (induction j)
  case 0
  then show ?case by simp
next
  case (Suc j)
  then have j: "j < k" "j < n" by simp_all
  have rep: "k - j = Suc (k - Suc j)"
    using j by simp
  show ?case using Suc j
    by (simp add: worker_loop_def rep list_update_append)
qed

lemma worker_count_le: "worker_count C n \<le> n"
  by (simp add: worker_count_def)

lemma start_state:
  "mapWithConcurrency_start items C =
     \<lparr>nextIndex = worker_count C (length items), results = replicate (length items) None,
      workers = map Awaiting [0..<worker_count C (length items)],
      claims = map (\<lambda>w. (w, w)) [0..<worker_count C (length items)]\<rparr>"
  unfolding mapWithConcurrency_start_def Let_def
  by (subst start_fold) (simp_all add: worker_count_le)

lemma pool_inv_start:
  "pool_inv (length items) (worker_count C (length items)) (mapWithConcurrency_start items C)"
  by (simp add: pool_inv_def start_state worker_count_le comp_def)


lemma filter_update_keep:
  "w < length xs \<Longrightarrow> P (xs ! w) \<Longrightarrow> P y \<Longrightarrow> length (filter P (xs[w := y])) = length (filter P xs)"
proof -
  assume a: "w < length xs" "P (xs ! w)" "P y"
  have 1: "xs = take w xs @ xs ! w # drop (Suc w) xs" using a by (simp add: id_take_nth_drop)
  have 2: "xs[w := y] = take w xs @ y # drop (Suc w) xs" using a by (simp add: upd_conv_take_nth_drop)
  have "length (filter P xs) = length (filter P (take w xs)) + Suc (length (filter P (drop (Suc w) xs)))"
    by (subst 1) (simp add: a)
  moreover have "length (filter P (xs[w := y])) = length (filter P (take w xs)) + Suc (length (filter P (drop (Suc w) xs)))"
    by (subst 2) (simp add: a)
  ultimately show ?thesis by simp
qed

lemma filter_update_drop:
  "w < length xs \<Longrightarrow> P (xs ! w) \<Longrightarrow> \<not> P y \<Longrightarrow> Suc (length (filter P (xs[w := y]))) = length (filter P xs)"
proof -
  assume a: "w < length xs" "P (xs ! w)" "\<not> P y"
  have 1: "xs = take w xs @ xs ! w # drop (Suc w) xs" using a by (simp add: id_take_nth_drop)
  have 2: "xs[w := y] = take w xs @ y # drop (Suc w) xs" using a by (simp add: upd_conv_take_nth_drop)
  have "length (filter P xs) = length (filter P (take w xs)) + Suc (length (filter P (drop (Suc w) xs)))"
    by (subst 1) (simp add: a)
  moreover have "length (filter P (xs[w := y])) = length (filter P (take w xs)) + length (filter P (drop (Suc w) xs))"
    by (subst 2) (simp add: a)
  ultimately show ?thesis by simp
qed

lemma resume_cases:
  assumes "worker_resume fn items w st = Some st'"
  obtains i v where "w < length (workers st)" "workers st ! w = Awaiting i" "fn (items ! i) i = Inr v"
      "nextIndex st < length items"
      "st' = st\<lparr>nextIndex := nextIndex st + 1, results := (results st)[i := Some v],
                workers := (workers st)[w := Awaiting (nextIndex st)],
                claims := claims st @ [(w, nextIndex st)]\<rparr>"
  | i v where "w < length (workers st)" "workers st ! w = Awaiting i" "fn (items ! i) i = Inr v"
      "nextIndex st \<ge> length items"
      "st' = st\<lparr>results := (results st)[i := Some v], workers := (workers st)[w := Returned]\<rparr>"
  | i e where "w < length (workers st)" "workers st ! w = Awaiting i" "fn (items ! i) i = Inl e"
      "st' = st\<lparr>workers := (workers st)[w := Rejected e]\<rparr>"
  using assms unfolding worker_resume_def worker_loop_def Let_def
  by (auto split: if_splits worker.splits sum.splits)

lemma resume_inv:
  assumes "worker_resume fn items w st = Some st'" "pool_inv (length items) k st"
  shows "pool_inv (length items) k st'"
  using assms(1)
proof (cases rule: resume_cases)
  case (1 i v)
  then show ?thesis using assms(2) unfolding pool_inv_def
    by (simp add: nth_list_update) (metis less_irrefl less_SucI)
next
  case (2 i v)
  then show ?thesis using assms(2) unfolding pool_inv_def
    by (auto simp: nth_list_update)
next
  case (3 i e)
  then show ?thesis using assms(2) unfolding pool_inv_def
    by (auto simp: nth_list_update)
qed

lemma resume_count:
  assumes "worker_resume fn items w st = Some st'" "pool_inv (length items) k st"
  shows "nextIndex st' + in_flight st = Suc (nextIndex st + in_flight st')"
  using assms(1)
proof (cases rule: resume_cases)
  case (1 i v)
  then show ?thesis using filter_update_keep[of w "workers st" is_awaiting "Awaiting (nextIndex st)"]
    by (simp add: in_flight_def is_awaiting_def)
next
  case (2 i v)
  then show ?thesis using filter_update_drop[of w "workers st" is_awaiting Returned]
    by (simp add: in_flight_def is_awaiting_def)
next
  case (3 i e)
  then show ?thesis using filter_update_drop[of w "workers st" is_awaiting "Rejected e"]
    by (simp add: in_flight_def is_awaiting_def)
qed

lemma exec_inv:
  "pool_exec fn items sched st = Some st' \<Longrightarrow> pool_inv (length items) k st \<Longrightarrow>
   pool_inv (length items) k st' \<and>
   nextIndex st' + in_flight st = nextIndex st + in_flight st' + length sched"
proof (induction sched arbitrary: st)
  case Nil
  then show ?case by simp
next
  case (Cons w sched)
  then obtain st1 where 1: "worker_resume fn items w st = Some st1"
     and 2: "pool_exec fn items sched st1 = Some st'"
    by (auto split: option.splits)
  from resume_inv[OF 1 Cons.prems(2)] resume_count[OF 1 Cons.prems(2)] Cons.IH[OF 2]
  show ?case by simp
qed

lemma in_flight_start: "in_flight (mapWithConcurrency_start items C) = worker_count C (length items)"
  by (simp add: start_state in_flight_def is_awaiting_def)



lemma res_inv_start:
  "res_inv fn items (worker_count C (length items)) (mapWithConcurrency_start items C)"
  by (auto simp: res_inv_def start_state)

lemma resume_res_inv:
  assumes r: "worker_resume fn items w st = Some st'" and p: "pool_inv (length items) k st"
    and q: "res_inv fn items k st"
    and h: "\<forall>i<length items. \<exists>v. fn (items ! i) i = Inr v"
  shows "res_inv fn items k st'"
  using r
proof (cases rule: resume_cases)
  case (1 i v)
  have wk: "w < k" using 1 p by (simp add: pool_inv_def)
  have il: "i < nextIndex st" "i < length (results st)" using 1 p wk by (auto simp: pool_inv_def)
  have d: "\<And>w'. w' < k \<Longrightarrow> workers st ! w' = Awaiting i \<Longrightarrow> w' = w"
    using 1 p wk unfolding pool_inv_def by blast
  show ?thesis unfolding res_inv_def
  proof (intro conjI allI impI)
    fix w' e assume "w' < k"
    then show "workers st' ! w' \<noteq> Rejected e"
      using q 1 p by (simp add: res_inv_def pool_inv_def nth_list_update)
  next
    fix j assume a: "j < nextIndex st' \<and> (\<forall>w<k. workers st' ! w \<noteq> Awaiting j)"
    show "\<exists>v. results st' ! j = Some v \<and> fn (items ! j) j = Inr v"
    proof (cases "j = i")
      case True
      then show ?thesis using 1 il by simp
    next
      case False
      have "j \<noteq> nextIndex st" using a 1 wk p by (auto simp: pool_inv_def nth_list_update)
      then have jl: "j < nextIndex st" using a 1 by simp
      have "\<forall>w'<k. workers st ! w' \<noteq> Awaiting j"
      proof (intro allI impI)
        fix w' assume w': "w' < k"
        show "workers st ! w' \<noteq> Awaiting j"
        proof (cases "w' = w")
          case True then show ?thesis using 1 False by simp
        next
          case False
          then show ?thesis using a w' 1 p by (auto simp: pool_inv_def nth_list_update)
        qed
      qed
      then have "\<exists>v. results st ! j = Some v \<and> fn (items ! j) j = Inr v"
        using q jl by (simp add: res_inv_def)
      then show ?thesis using 1 False by simp
    qed
  qed
next
  case (2 i v)
  have wk: "w < k" using 2 p by (simp add: pool_inv_def)
  have il: "i < nextIndex st" "i < length (results st)" using 2 p wk by (auto simp: pool_inv_def)
  show ?thesis unfolding res_inv_def
  proof (intro conjI allI impI)
    fix w' e assume "w' < k"
    then show "workers st' ! w' \<noteq> Rejected e"
      using q 2 p by (simp add: res_inv_def pool_inv_def nth_list_update)
  next
    fix j assume a: "j < nextIndex st' \<and> (\<forall>w<k. workers st' ! w \<noteq> Awaiting j)"
    show "\<exists>v. results st' ! j = Some v \<and> fn (items ! j) j = Inr v"
    proof (cases "j = i")
      case True
      then show ?thesis using 2 il by simp
    next
      case False
      have jl: "j < nextIndex st" using a 2 by simp
      have "\<forall>w'<k. workers st ! w' \<noteq> Awaiting j"
      proof (intro allI impI)
        fix w' assume w': "w' < k"
        show "workers st ! w' \<noteq> Awaiting j"
        proof (cases "w' = w")
          case True then show ?thesis using 2 False by simp
        next
          case False
          then show ?thesis using a w' 2 p by (auto simp: pool_inv_def nth_list_update)
        qed
      qed
      then have "\<exists>v. results st ! j = Some v \<and> fn (items ! j) j = Inr v"
        using q jl by (simp add: res_inv_def)
      then show ?thesis using 2 False by simp
    qed
  qed
next
  case (3 i e)
  have wk: "w < k" using 3 p by (simp add: pool_inv_def)
  have "i < length items" using 3 p wk by (auto simp: pool_inv_def)
  then show ?thesis using h 3 by auto
qed

lemma exec_res_inv:
  "pool_exec fn items sched st = Some st' \<Longrightarrow> pool_inv (length items) k st \<Longrightarrow>
   res_inv fn items k st \<Longrightarrow> \<forall>i<length items. \<exists>v. fn (items ! i) i = Inr v \<Longrightarrow>
   res_inv fn items k st'"
proof (induction sched arbitrary: st)
  case Nil
  then show ?case by simp
next
  case (Cons w sched)
  then obtain st1 where 1: "worker_resume fn items w st = Some st1"
     and 2: "pool_exec fn items sched st1 = Some st'"
    by (auto split: option.splits)
  from Cons.IH[OF 2 resume_inv[OF 1 Cons.prems(2)] resume_res_inv[OF 1 Cons.prems(2,3,4)] Cons.prems(4)]
  show ?case .
qed

lemma pool_exec_append:
  "pool_exec fn items (a @ b) st =
     (case pool_exec fn items a st of None \<Rightarrow> None | Some st' \<Rightarrow> pool_exec fn items b st')"
  by (induction a arbitrary: st) (auto split: option.splits)


lemma worker_count_zero: "worker_count C n = 0 \<Longrightarrow> n = 0"
  by (simp add: worker_count_def concurrency_of_def min_def split: if_splits)

lemma in_flight_zero: "in_flight st = 0 \<longleftrightarrow> (\<forall>w<length (workers st). \<not> is_awaiting (workers st ! w))"
  by (simp add: in_flight_def filter_empty_conv all_set_conv_all_nth)

lemma all_returned_nth: "all_returned st \<longleftrightarrow> (\<forall>w<length (workers st). workers st ! w = Returned)"
  by (simp add: all_returned_def list_all_length)

lemma nextIndex_start: "nextIndex (mapWithConcurrency_start items C) = worker_count C (length items)"
  by (simp add: start_state)

lemma exec_facts:
  assumes e: "mapWithConcurrency_exec fn items C sched = Some st"
  shows "pool_inv (length items) (worker_count C (length items)) st"
    and "nextIndex st = in_flight st + length sched"
  using exec_inv[OF e[unfolded mapWithConcurrency_exec_def] pool_inv_start]
  by (simp_all add: in_flight_start nextIndex_start)

lemma all_returned_next:
  assumes p: "pool_inv n (worker_count C n) st" and a: "all_returned st"
  shows "nextIndex st = n \<and> in_flight st = 0"
proof -
  have z: "in_flight st = 0" using a by (simp add: in_flight_zero all_returned_nth is_awaiting_def)
  show ?thesis
  proof (cases "worker_count C n = 0")
    case True
    then have "n = 0" by (rule worker_count_zero)
    then show ?thesis using p z by (simp add: pool_inv_def)
  next
    case False
    then have "0 < length (workers st)" using p by (simp add: pool_inv_def)
    then have "workers st ! 0 = Returned" using a by (simp add: all_returned_nth)
    then show ?thesis using p z False by (auto simp: pool_inv_def)
  qed
qed

text \<open>
  C1. Whatever the order \<open>sched\<close> in which the item promises settle, and for every
  concurrency (in particular \<open>1 \<le> C \<le> N\<close>): when no item operation rejects, the pool
  performs exactly \<open>N\<close> settlements, can always perform the next one until then, and once
  all workers have returned the result array has length \<open>N\<close> and slot \<open>i\<close> holds the value
  of \<open>fn (items[i], i)\<close>.
\<close>

theorem mapWithConcurrency_ordered_results:
  assumes h: "\<forall>i<length items. \<exists>v. fn (items ! i) i = Inr v"
    and e: "mapWithConcurrency_exec fn items C sched = Some st"
  shows "length (results st) = length items \<and> length sched \<le> length items \<and>
         (all_returned st \<longleftrightarrow> length sched = length items) \<and>
         (all_returned st \<longrightarrow>
            (\<forall>i<length items. \<exists>v. results st ! i = Some v \<and> fn (items ! i) i = Inr v)) \<and>
         (\<not> all_returned st \<longrightarrow>
            (\<exists>w. mapWithConcurrency_exec fn items C (sched @ [w]) \<noteq> None))"
proof -
  let ?n = "length items" and ?k = "worker_count C (length items)"
  note p = exec_facts(1)[OF e] and c = exec_facts(2)[OF e]
  have q: "res_inv fn items ?k st"
    using exec_res_inv[OF e[unfolded mapWithConcurrency_exec_def] pool_inv_start res_inv_start h] .
  have lw: "length (workers st) = ?k" and nn: "nextIndex st \<le> ?n" using p by (simp_all add: pool_inv_def)
  have 1: "length (results st) = ?n" using p by (simp add: pool_inv_def)
  have 2: "length sched \<le> ?n" using c nn by simp
  have fwd: "all_returned st \<Longrightarrow> length sched = ?n"
    using all_returned_next[OF p] c by simp
  have awaiting_or_returned: "\<And>w. w < ?k \<Longrightarrow> workers st ! w = Returned \<or> is_awaiting (workers st ! w)"
  proof -
    fix w assume w: "w < ?k"
    show "workers st ! w = Returned \<or> is_awaiting (workers st ! w)"
      using p q w by (cases "workers st ! w") (auto simp: pool_inv_def res_inv_def is_awaiting_def)
  qed
  have bwd: "length sched = ?n \<Longrightarrow> all_returned st"
  proof -
    assume "length sched = ?n"
    then have "in_flight st = 0" using c nn by simp
    then show "all_returned st"
      using awaiting_or_returned lw by (auto simp: in_flight_zero all_returned_nth)
  qed
  have 4: "all_returned st \<Longrightarrow> i < ?n \<Longrightarrow> \<exists>v. results st ! i = Some v \<and> fn (items ! i) i = Inr v" for i
  proof -
    assume a: "all_returned st" and i: "i < ?n"
    have "nextIndex st = ?n" using all_returned_next[OF p a] by simp
    moreover have "\<forall>w<?k. workers st ! w \<noteq> Awaiting i" using a lw by (simp add: all_returned_nth)
    ultimately show ?thesis using q i by (simp add: res_inv_def)
  qed
  have 5: "\<not> all_returned st \<Longrightarrow> \<exists>w. mapWithConcurrency_exec fn items C (sched @ [w]) \<noteq> None"
  proof -
    assume "\<not> all_returned st"
    then obtain w where w: "w < ?k" "workers st ! w \<noteq> Returned" using lw by (auto simp: all_returned_nth)
    then obtain i where i: "workers st ! w = Awaiting i"
      using awaiting_or_returned[OF w(1)] by (cases "workers st ! w") (auto simp: is_awaiting_def)
    have "i < ?n" using p w i by (auto simp: pool_inv_def)
    then obtain v where "fn (items ! i) i = Inr v" using h by blast
    then have "worker_resume fn items w st \<noteq> None" using w i lw by (simp add: worker_resume_def)
    then have "mapWithConcurrency_exec fn items C (sched @ [w]) \<noteq> None"
      using e by (auto simp: mapWithConcurrency_exec_def pool_exec_append)
    then show ?thesis by blast
  qed
  show ?thesis using 1 2 fwd bwd 4 5 by blast
qed



text \<open>C1, witness: three items, two workers, promises settling in the order 1, 0, 1.\<close>

theorem mapWithConcurrency_ordered_results_witness:
  "mapWithConcurrency_exec (\<lambda>x i. Inr (x + int i) :: unit + int) [10, 20, 30] 2 [1, 0, 1]
     = Some \<lparr>nextIndex = 3, results = [Some 10, Some 21, Some 32],
              workers = [Returned, Returned], claims = [(0, 0), (1, 1), (1, 2)]\<rparr> \<and>
   all_returned \<lparr>nextIndex = 3, results = [Some 10, Some 21, Some (32::int)],
              workers = [Returned, Returned :: unit worker], claims = [(0, 0), (1, 1), (1, 2)]\<rparr> \<and>
   length [1, 0, 1 :: nat] = length [10, 20, 30 :: int]"
proof -
  let ?f = "(\<lambda>x i. Inr (x + int i)) :: int \<Rightarrow> nat \<Rightarrow> unit + int"
  have h: "\<forall>i<length [10, 20, 30 :: int]. \<exists>v. ?f ([10, 20, 30] ! i) i = Inr v" by simp
  have e: "mapWithConcurrency_exec ?f [10, 20, 30] 2 [1, 0, 1]
     = Some \<lparr>nextIndex = 3, results = [Some 10, Some 21, Some 32],
              workers = [Returned, Returned], claims = [(0, 0), (1, 1), (1, 2)]\<rparr>"
    by code_simp
  have a: "all_returned \<lparr>nextIndex = 3, results = [Some 10, Some 21, Some (32::int)],
              workers = [Returned, Returned :: unit worker], claims = [(0, 0), (1, 1), (1, 2)]\<rparr>"
    by (simp add: all_returned_def)
  from mapWithConcurrency_ordered_results[OF h e] a e show ?thesis by blast
qed



section \<open>Proofs: retrying transport\<close>

declare fetch_loop.simps [simp del]

lemma fetch_loop_retry:
  assumes "attempt < maxAttempts cfg" "retryable_failure (fetch attempt)"
  shows "fetch_loop cfg fetch rnd attempt =
     (fst (fetch_loop cfg fetch rnd (Suc attempt)),
      [MakeBody attempt, Fetch attempt, Sleep (jitterMs (rnd attempt) (backoff cfg attempt))]
        @ snd (fetch_loop cfg fetch rnd (Suc attempt)))"
  using assms
  by (subst fetch_loop.simps) (auto simp: retryable_failure_def split: attempt.splits prod.splits)

lemma retried_Suc: "a \<le> k \<Longrightarrow> retried cfg rnd a (Suc k) = retried cfg rnd a k @ [MakeBody k, Fetch k, Sleep (jitterMs (rnd k) (backoff cfg k))]"
  by (simp add: retried_def)

lemma fetch_loop_skip:
  "a \<le> k \<Longrightarrow> k \<le> maxAttempts cfg \<Longrightarrow> \<forall>j. a \<le> j \<and> j < k \<longrightarrow> retryable_failure (fetch j) \<Longrightarrow>
   fetch_loop cfg fetch rnd a =
     (fst (fetch_loop cfg fetch rnd k), retried cfg rnd a k @ snd (fetch_loop cfg fetch rnd k))"
proof (induction k)
  case 0
  then show ?case by (simp add: retried_def)
next
  case (Suc k)
  show ?case
  proof (cases "a = Suc k")
    case True
    then show ?thesis by (simp add: retried_def)
  next
    case False
    then have ak: "a \<le> k" using Suc.prems by simp
    have "fetch_loop cfg fetch rnd a =
      (fst (fetch_loop cfg fetch rnd k), retried cfg rnd a k @ snd (fetch_loop cfg fetch rnd k))"
      using Suc ak by simp
    moreover have "fetch_loop cfg fetch rnd k =
     (fst (fetch_loop cfg fetch rnd (Suc k)),
      [MakeBody k, Fetch k, Sleep (jitterMs (rnd k) (backoff cfg k))]
        @ snd (fetch_loop cfg fetch rnd (Suc k)))"
      using Suc.prems ak by (intro fetch_loop_retry) auto
    ultimately show ?thesis using ak by (simp add: retried_Suc)
  qed
qed

lemma reached_skip:
  assumes "reached cfg fetch k"
  shows "fetchWithRetry cfg fetch rnd =
     (fst (fetch_loop cfg fetch rnd k), retried cfg rnd 1 k @ snd (fetch_loop cfg fetch rnd k))"
  unfolding fetchWithRetry_def using assms
  by (intro fetch_loop_skip) (auto simp: reached_def list_all_iff)

lemma fetch_loop_stop:
  assumes "attempt \<le> maxAttempts cfg" "\<not> (retryable_failure (fetch attempt) \<and> attempt < maxAttempts cfg)"
  shows "fetch_loop cfg fetch rnd attempt = (final_result (fetch attempt), [MakeBody attempt, Fetch attempt])"
  using assms
  by (subst fetch_loop.simps) (auto simp: retryable_failure_def final_result_def split: attempt.splits)


lemma fetch_loop_final:
  "1 \<le> a \<Longrightarrow> a \<le> maxAttempts cfg \<Longrightarrow>
   \<exists>n. a \<le> n \<and> n \<le> maxAttempts cfg \<and> (\<forall>j. a \<le> j \<and> j < n \<longrightarrow> retryable_failure (fetch j)) \<and>
       \<not> (retryable_failure (fetch n) \<and> n < maxAttempts cfg) \<and>
       fetch_loop cfg fetch rnd a = (final_result (fetch n), retried cfg rnd a n @ [MakeBody n, Fetch n])"
proof (induction "maxAttempts cfg - a" arbitrary: a)
  case 0
  then have "a = maxAttempts cfg" by simp
  then have "fetch_loop cfg fetch rnd a = (final_result (fetch a), [MakeBody a, Fetch a])"
    by (intro fetch_loop_stop) simp_all
  then show ?case using 0 by (intro exI[of _ a]) (auto simp: retried_def)
next
  case (Suc d)
  show ?case
  proof (cases "retryable_failure (fetch a)")
    case False
    then have "fetch_loop cfg fetch rnd a = (final_result (fetch a), [MakeBody a, Fetch a])"
      using Suc.prems by (intro fetch_loop_stop) simp_all
    then show ?thesis using Suc.prems False by (intro exI[of _ a]) (auto simp: retried_def)
  next
    case True
    have lt: "a < maxAttempts cfg" using Suc.hyps(2) by simp
    have "d = maxAttempts cfg - Suc a" using Suc.hyps(2) by simp
    from Suc.hyps(1)[OF this] lt obtain n where n: "Suc a \<le> n" "n \<le> maxAttempts cfg"
      "\<forall>j. Suc a \<le> j \<and> j < n \<longrightarrow> retryable_failure (fetch j)"
      "\<not> (retryable_failure (fetch n) \<and> n < maxAttempts cfg)"
      "fetch_loop cfg fetch rnd (Suc a) = (final_result (fetch n), retried cfg rnd (Suc a) n @ [MakeBody n, Fetch n])"
      by auto
    have r: "retried cfg rnd a n = [MakeBody a, Fetch a, Sleep (jitterMs (rnd a) (backoff cfg a))] @ retried cfg rnd (Suc a) n"
      using n(1) by (simp add: retried_def upt_conv_Cons)
    have all: "\<forall>j. a \<le> j \<and> j < n \<longrightarrow> retryable_failure (fetch j)"
      using n(3) True by (metis Suc_leI le_neq_implies_less)
    show ?thesis
      using n all fetch_loop_retry[of a cfg fetch rnd, OF lt True] r
      by (intro exI[of _ n]) simp
  qed
qed

lemma count_retried:
  "length (filter is_fetch (retried cfg rnd a n)) = n - a"
  "length (filter is_makeBody (retried cfg rnd a n)) = n - a"
  "length (filter is_sleep (retried cfg rnd a n)) = n - a"
  unfolding retried_def
  by (induction n) (auto simp: is_fetch_def is_makeBody_def is_sleep_def)

lemma maxAttempts_pos: "1 \<le> maxAttempts cfg"
  by (simp add: maxAttempts_def)

text \<open>
  C2 (as amended). The run of the transport stops at some attempt \<open>n\<close> that is reached
  (every earlier attempt was a retryable failure: a response with status 429, 500, 502,
  503 or 504, or an exception) and is within \<open>maxAttempts = max 1 (maxRetries + 1)\<close>;
  a request body is built before each request; the run ends with the request of attempt
  \<open>n\<close>, whose response is returned when it is 2xx, not retryable, or the last allowed
  attempt, and whose exception is propagated on the last allowed attempt. Hence the first
  2xx response and any other non-retryable response are returned at once, with no sleep
  after them (on the first attempt: exactly one request, no sleep), and the number of
  requests is at most \<open>maxRetries + 1\<close> when \<open>maxRetries\<close> is not negative.
\<close>

theorem fetchWithRetry_policy:
  "(\<exists>n. reached cfg fetch n \<and>
        snd (fetchWithRetry cfg fetch rnd) = retried cfg rnd 1 n @ [MakeBody n, Fetch n] \<and>
        length (filter is_fetch (snd (fetchWithRetry cfg fetch rnd))) = n \<and>
        length (filter is_makeBody (snd (fetchWithRetry cfg fetch rnd))) = n \<and>
        (case fetch n of
           Responds r \<Rightarrow> fst (fetchWithRetry cfg fetch rnd) = Inr r \<and>
                         (response_ok r \<or> \<not> retryable (status r) \<or> n = maxAttempts cfg)
         | Throws e \<Rightarrow> fst (fetchWithRetry cfg fetch rnd) = Inl (Thrown e) \<and> n = maxAttempts cfg)) \<and>
   int (maxAttempts cfg) = max 1 (maxRetries cfg + 1) \<and>
   (0 \<le> maxRetries cfg \<longrightarrow>
      int (length (filter is_fetch (snd (fetchWithRetry cfg fetch rnd)))) \<le> maxRetries cfg + 1) \<and>
   (\<forall>k r. reached cfg fetch k \<and> fetch k = Responds r \<and> (response_ok r \<or> \<not> retryable (status r)) \<longrightarrow>
      fetchWithRetry cfg fetch rnd = (Inr r, retried cfg rnd 1 k @ [MakeBody k, Fetch k])) \<and>
   (\<forall>r. fetch 1 = Responds r \<and> (response_ok r \<or> \<not> retryable (status r)) \<longrightarrow>
      fetchWithRetry cfg fetch rnd = (Inr r, [MakeBody 1, Fetch 1])) \<and>
   (\<forall>e. reached cfg fetch (maxAttempts cfg) \<and> fetch (maxAttempts cfg) = Throws e \<longrightarrow>
      fst (fetchWithRetry cfg fetch rnd) = Inl (Thrown e))"
proof -
  let ?run = "fetchWithRetry cfg fetch rnd"
  from fetch_loop_final[of 1 cfg fetch rnd] maxAttempts_pos[of cfg]
  obtain n where n: "1 \<le> n" "n \<le> maxAttempts cfg" "\<forall>j. 1 \<le> j \<and> j < n \<longrightarrow> retryable_failure (fetch j)"
     "\<not> (retryable_failure (fetch n) \<and> n < maxAttempts cfg)"
     "?run = (final_result (fetch n), retried cfg rnd 1 n @ [MakeBody n, Fetch n])"
    unfolding fetchWithRetry_def by auto
  have rn: "reached cfg fetch n" using n by (simp add: reached_def list_all_iff)
  have cnt: "length (filter is_fetch (snd ?run)) = n" "length (filter is_makeBody (snd ?run)) = n"
    using n(1,5) by (simp_all add: count_retried) (simp_all add: is_fetch_def is_makeBody_def)
  have fin: "(case fetch n of
           Responds r \<Rightarrow> fst ?run = Inr r \<and>
                         (response_ok r \<or> \<not> retryable (status r) \<or> n = maxAttempts cfg)
         | Throws e \<Rightarrow> fst ?run = Inl (Thrown e) \<and> n = maxAttempts cfg)"
    using n(2,4,5) by (auto simp: final_result_def retryable_failure_def split: attempt.splits)
  have A: "\<exists>n. reached cfg fetch n \<and>
        snd ?run = retried cfg rnd 1 n @ [MakeBody n, Fetch n] \<and>
        length (filter is_fetch (snd ?run)) = n \<and>
        length (filter is_makeBody (snd ?run)) = n \<and>
        (case fetch n of
           Responds r \<Rightarrow> fst ?run = Inr r \<and>
                         (response_ok r \<or> \<not> retryable (status r) \<or> n = maxAttempts cfg)
         | Throws e \<Rightarrow> fst ?run = Inl (Thrown e) \<and> n = maxAttempts cfg)"
    using rn n(5) cnt fin by (intro exI[of _ n]) simp
  have B: "int (maxAttempts cfg) = max 1 (maxRetries cfg + 1)" by (simp add: maxAttempts_def)
  have C: "0 \<le> maxRetries cfg \<Longrightarrow> int (length (filter is_fetch (snd ?run))) \<le> maxRetries cfg + 1"
    using cnt(1) n(2) B by simp
  have D: "?run = (Inr r, retried cfg rnd 1 k @ [MakeBody k, Fetch k])"
    if "reached cfg fetch k" "fetch k = Responds r" "response_ok r \<or> \<not> retryable (status r)" for k r
  proof -
    have "fetch_loop cfg fetch rnd k = (final_result (fetch k), [MakeBody k, Fetch k])"
      using that by (intro fetch_loop_stop) (auto simp: reached_def retryable_failure_def)
    then show ?thesis using reached_skip[OF that(1), of rnd] that(2) by (simp add: final_result_def)
  qed
  have r1: "reached cfg fetch 1" using maxAttempts_pos[of cfg] by (simp add: reached_def)
  have E: "?run = (Inr r, [MakeBody 1, Fetch 1])"
    if "fetch 1 = Responds r" "response_ok r \<or> \<not> retryable (status r)" for r
    using D[OF r1 that] by (simp add: retried_def)
  have F: "fst ?run = Inl (Thrown e)"
    if "reached cfg fetch (maxAttempts cfg)" "fetch (maxAttempts cfg) = Throws e" for e
  proof -
    have "fetch_loop cfg fetch rnd (maxAttempts cfg) = (final_result (fetch (maxAttempts cfg)), [MakeBody (maxAttempts cfg), Fetch (maxAttempts cfg)])"
      by (intro fetch_loop_stop) simp_all
    then show ?thesis using reached_skip[OF that(1), of rnd] that(2) by (simp add: final_result_def)
  qed
  show ?thesis using A B C D E F by blast
qed


text \<open>C2, witness: a 429 response, then a 200 response: two requests, one sleep between them.\<close>

theorem fetchWithRetry_policy_witness:
  "fetchWithRetry \<lparr>requestTimeoutMs = 300000, maxRetries = 2, retryBaseMs = 250\<rparr>
     (\<lambda>k. if k = 1 then Responds \<lparr>status = 429, bodyText = ''rate_limited'', contentType = Some ''text/plain''\<rparr>
          else (Responds \<lparr>status = 200, bodyText = ''ok'', contentType = Some ''text/plain''\<rparr> :: unit attempt))
     (\<lambda>k. 1 / 2)
   = (Inr \<lparr>status = 200, bodyText = ''ok'', contentType = Some ''text/plain''\<rparr>,
      [MakeBody 1, Fetch 1, Sleep 250, MakeBody 2, Fetch 2])"
proof -
  let ?cfg = "\<lparr>requestTimeoutMs = 300000, maxRetries = 2, retryBaseMs = 250\<rparr>"
  let ?r = "\<lparr>status = 200, bodyText = ''ok'', contentType = Some ''text/plain''\<rparr>"
  let ?fetch = "\<lambda>k::nat. if k = 1 then Responds \<lparr>status = 429, bodyText = ''rate_limited'', contentType = Some ''text/plain''\<rparr>
          else (Responds ?r :: unit attempt)"
  let ?rnd = "\<lambda>k::nat. 1 / 2 :: real"
  have r: "reached ?cfg ?fetch 2"
    by (simp add: reached_def maxAttempts_def retryable_failure_def response_ok_def retryable_def upt_rec)
  have f: "?fetch 2 = Responds ?r" "response_ok ?r" by (simp_all add: response_ok_def)
  have t: "retried ?cfg ?rnd 1 2 = [MakeBody 1, Fetch 1, Sleep 250]"
    by (simp add: retried_def upt_rec jitterMs_def jitter_factor_def backoff_def)
  from fetchWithRetry_policy[of ?cfg ?fetch ?rnd]
  have "\<forall>k r. reached ?cfg ?fetch k \<and> ?fetch k = Responds r \<and> (response_ok r \<or> \<not> retryable (status r)) \<longrightarrow>
      fetchWithRetry ?cfg ?fetch ?rnd = (Inr r, retried ?cfg ?rnd 1 k @ [MakeBody k, Fetch k])"
    by blast
  from this[rule_format, of 2 ?r] r f t show ?thesis by simp
qed

text \<open>
  C2 as stated fails for a negative retry count: with \<open>maxRetries = -1\<close> the bound
  \<open>maxRetries + 1\<close> is zero, and the transport still issues one request.
\<close>

theorem fetchWithRetry_attempts_counterexample:
  "length (filter is_fetch (snd (fetchWithRetry
       \<lparr>requestTimeoutMs = 300000, maxRetries = - 1, retryBaseMs = 250\<rparr>
       example_ok_fetch example_rnd))) = 1 \<and>
   \<not> (1 :: int) \<le> maxRetries \<lparr>requestTimeoutMs = 300000, maxRetries = - 1, retryBaseMs = 250\<rparr> + 1"
  by (simp add: fetchWithRetry_def fetch_loop.simps[of _ _ _ "Suc 0"] maxAttempts_def response_ok_def
      is_fetch_def example_ok_fetch_def)



section \<open>Proofs: file names and artifacts\<close>

declare find_candidate.simps [simp del] string_of_nat.simps [simp del]














lemma path_join_neq: "name \<noteq> [] \<Longrightarrow> path_join d name \<noteq> d"
  by (auto simp: path_join_def)

lemma path_join_inj: "path_join d a = path_join d b \<Longrightarrow> a = b"
  by (auto simp: path_join_def split: if_splits)

text \<open>
  C10. For an explicit save-name whose sanitized form does not end in a dot followed by
  alphanumeric characters, and a transcripts directory that can be created, the reservation
  succeeds with the sanitized name followed by \<open>.txt\<close> for the plain-text encoding and by
  \<open>.json\<close> for \<open>json\<close> and \<open>verbose_json\<close>, joined to the transcripts directory under the
  working directory.
\<close>

theorem reserve_explicit_without_extension:
  assumes "truthy_str saveAs"
    and "ext_match (sanitizeSegment (trim (the saveAs))) = None"
    and "ensureDir fs (path_resolve cwd TRANSCRIPTS_DIR) = Inr fs1"
  shows "reserveTranscriptPath cwd now fs baseName (extension_of responseFormat) saveAs =
           (Inr (path_join (path_resolve cwd TRANSCRIPTS_DIR)
                   (sanitizeSegment (trim (the saveAs)) @ ''.'' @
                    (if responseFormat = TEXT then ''txt'' else ''json''))), fs1)"
  using assms by (simp add: reserveTranscriptPath_def extension_of_def)

text \<open>C10, witness: the name \<open>intro\<close> with the encoding \<open>verbose_json\<close>.\<close>

theorem reserve_explicit_without_extension_witness:
  "reserveTranscriptPath ''/work'' example_now Map.empty ''audio'' (extension_of VERBOSE_JSON) (Some ''intro'') =
     (Inr ''/work/transcripts/intro.json'', [''/work/transcripts'' \<mapsto> Directory])"
proof -
  have 1: "truthy_str (Some ''intro'')" by (simp add: truthy_str_def)
  have 2: "sanitizeSegment (trim (the (Some ''intro''))) = ''intro''" by code_simp
  have 3: "ext_match ''intro'' = None" by code_simp
  have 4: "ensureDir Map.empty (path_resolve ''/work'' TRANSCRIPTS_DIR) = Inr [''/work/transcripts'' \<mapsto> Directory]"
    by (simp add: ensureDir_def path_resolve_def path_join_def TRANSCRIPTS_DIR_def)
  from reserve_explicit_without_extension[OF 1 _ 4, of example_now "''audio''" VERBOSE_JSON] 2 3
  show ?thesis by (simp add: path_resolve_def path_join_def TRANSCRIPTS_DIR_def)
qed


lemma reserve_dir_failure:
  "ensureDir fs (path_resolve cwd TRANSCRIPTS_DIR) = Inl e \<Longrightarrow>
   reserveTranscriptPath cwd now fs baseName ext saveAs = (Inl e, fs)"
  by (simp add: reserveTranscriptPath_def)















section \<open>Proofs: default naming\<close>


lemma collapse_hd: "collapse_underscores (c # cs) \<noteq> [] \<and> hd (collapse_underscores (c # cs)) = c"
  by simp































lemma derive_none:
  "\<not> truthy_str (file_path src) \<Longrightarrow> \<not> truthy_str (url src) \<Longrightarrow>
   deriveTranscriptBaseName parse_url src = ''transcript''"
  by (simp add: deriveTranscriptBaseName_def)





section \<open>Proofs: processing one item\<close>

lemma rawJson_of_cases: "rawJson_of l response = JNull \<or> rawJson_of l response = tryParseJson l (bodyText response)"
  by (simp add: rawJson_of_def split: option.splits)

lemma groq_ok:
  assumes "fst (fetchWithRetry cfg fetch rnd) = Inr response" "response_ok response"
  shows "groqCreateTranscription l cfg fetch rnd = Inr (bodyText response, rawJson_of l response, contentType response)"
  using assms by (simp add: groqCreateTranscription_def)

lemma parsed_eq:
  assumes "rawJson = JNull \<or> rawJson = tryParseJson l rawText"
  shows "(if rawJson \<noteq> JNull then rawJson else tryParseJson l rawText) = tryParseJson l rawText"
  using assms by auto

lemma transcriptText_structured:
  assumes "rawJson = JNull \<or> rawJson = tryParseJson l rawText" "fmt \<noteq> TEXT"
  shows "transcriptText_of l fmt rawText rawJson =
     (case json_parse l rawText of
        Some (JObj entries) \<Rightarrow> (case map_of entries ''text'' of Some (JStr t) \<Rightarrow> t | _ \<Rightarrow> rawText)
      | _ \<Rightarrow> rawText)"
proof -
  let ?p = "tryParseJson l rawText"
  have e: "extractTranscript l fmt rawText rawJson =
      (if truthy ?p \<and> is_JStr (get_field ?p ''text'') then (Some (the_JStr (get_field ?p ''text'')), ?p) else (None, ?p))"
    using assms(2) parsed_eq[OF assms(1)] by (simp add: extractTranscript_def Let_def)
  show ?thesis unfolding transcriptText_of_def e
    by (auto simp: tryParseJson_def is_JStr_def the_JStr_def split: option.splits json.splits)
qed

lemma transcriptText_plain: "transcriptText_of l TEXT rawText rawJson = rawText"
  by (simp add: transcriptText_of_def extractTranscript_def)

lemma transcribed_result:
  assumes "transcribed en fs params rawText rawJson ct = (result, fs')"
  shows "isError result = False"
    and "fs' = snd (saveTranscriptArtifact (e_lib en) (e_cwd en) (e_now en) fs
               (save_options_of (e_lib en) params rawText rawJson ct))"
    and "structured result = JObj ([(''model'', JStr (modelName_of params)),
            (''transcript'', JStr (transcriptText_of (e_lib en) (response_format params) rawText rawJson)),
            (''truncated'', JBool False), (''request'', requestStructured params),
            (''response'', responseStructured ct)] @
           (case metadata_of (e_lib en) params rawText rawJson of
                    Some m \<Rightarrow> [(''metadata'', m)] | None \<Rightarrow> []) @
           save_entries (response_format params)
             (fst (saveTranscriptArtifact (e_lib en) (e_cwd en) (e_now en) fs
               (save_options_of (e_lib en) params rawText rawJson ct))))"
  using assms by (auto simp: transcribed_def Let_def split: prod.splits)

lemma structured_transcript:
  assumes "structured result = JObj ([(''model'', m), (''transcript'', t),
            (''truncated'', tr), (''request'', rq), (''response'', rs)] @ rest)"
  shows "get_field (structured result) ''transcript'' = Some t"
  using assms by simp

lemma structured_saved:
  assumes "structured result = JObj ([(''model'', m), (''transcript'', t),
            (''truncated'', tr), (''request'', rq), (''response'', rs)] @
            (case meta of Some md \<Rightarrow> [(''metadata'', md)] | None \<Rightarrow> []) @ save_entries fmt sr)"
  shows "get_field (structured result) ''saved'' = Some (JBool (case sr of Inr a \<Rightarrow> True | Inl e \<Rightarrow> False))"
    and "get_field (structured result) ''save_error'' = (case sr of Inr a \<Rightarrow> None | Inl e \<Rightarrow> Some (JStr (toErrorMessage e)))"
    and "get_field (structured result) ''saved_path'' = (case sr of Inr a \<Rightarrow> Some (JStr (saved_path a)) | Inl e \<Rightarrow> None)"
  using assms by (auto simp: save_entries_def split: option.splits sum.splits)

lemma transcribeOne_ok:
  assumes "read_failure en params = None"
    and "fst (fetchWithRetry (e_cfg en) (e_fetch en) (e_rnd en)) = Inr response" "response_ok response"
  shows "transcribeOne en fs params =
           transcribed en fs params (bodyText response) (rawJson_of (e_lib en) response) (contentType response)"
  using groq_ok[OF assms(2,3), of "e_lib en"] assms(1) by (simp add: transcribeOne_def)

text \<open>
  C6. When no read error occurs and the transport returns a 2xx response, the item result
  is not an error, and its transcript is: for the plain-text encoding, the response body
  as it is; for \<open>json\<close> and \<open>verbose_json\<close>, the string under \<open>text\<close> when the body parses
  to an object with such an entry, and the response body in every other case (the parse
  fails, the value is not an object, \<open>text\<close> is absent or is not a string).
\<close>

theorem transcript_extraction:
  assumes "read_failure en params = None"
    and "fst (fetchWithRetry (e_cfg en) (e_fetch en) (e_rnd en)) = Inr response"
    and "response_ok response"
    and "transcribeOne en fs params = (result, fs')"
  shows "isError result = False \<and>
     (response_format params = TEXT \<longrightarrow>
        get_field (structured result) ''transcript'' = Some (JStr (bodyText response))) \<and>
     (response_format params \<noteq> TEXT \<longrightarrow>
        get_field (structured result) ''transcript'' =
          Some (JStr (case json_parse (e_lib en) (bodyText response) of
                        Some (JObj entries) \<Rightarrow>
                          (case map_of entries ''text'' of Some (JStr t) \<Rightarrow> t | _ \<Rightarrow> bodyText response)
                      | _ \<Rightarrow> bodyText response)))"
proof -
  let ?l = "e_lib en"
  have t: "transcribed en fs params (bodyText response) (rawJson_of ?l response) (contentType response) = (result, fs')"
    using transcribeOne_ok[OF assms(1,2,3), of fs] assms(4) by simp
  note r = transcribed_result[OF t]
  have tr: "get_field (structured result) ''transcript'' =
     Some (JStr (transcriptText_of ?l (response_format params) (bodyText response) (rawJson_of ?l response)))"
    using r(3) by (rule structured_transcript)
  show ?thesis
    using r(1) tr transcriptText_plain[of ?l "bodyText response" "rawJson_of ?l response"]
      transcriptText_structured[OF rawJson_of_cases[of ?l response], of "response_format params"]
    by auto
qed



lemma summarize_ok:
  "result_ok r \<Longrightarrow>
   failed_count (summarize (before @ r # after)) = failed_count (summarize (before @ after)) \<and>
   ok_count (summarize (before @ r # after)) = Suc (ok_count (summarize (before @ after))) \<and>
   total_count (summarize (before @ r # after)) = Suc (total_count (summarize (before @ after)))"
proof -
  assume "result_ok r"
  moreover have "length (filter result_ok (before @ after)) \<le> length (before @ after)"
    by (rule length_filter_le)
  ultimately show ?thesis by (simp add: summarize_def Let_def Suc_diff_le)
qed

text \<open>
  C4. When no read error occurs, the transport returns a 2xx response and saving the
  artifact fails with an exception \<open>e\<close>, the callback's result for the item is a success
  (\<open>ok = true\<close>) whose output has \<open>saved = false\<close>, the message of \<open>e\<close> as \<open>save_error\<close> and
  a transcript; in the summary of any batch the item adds one to \<open>ok\<close> and nothing to
  \<open>failed\<close>.
\<close>

theorem persistence_failure_keeps_success:
  assumes "read_failure en (item_request shared it) = None"
    and "fst (fetchWithRetry (e_cfg en) (e_fetch en) (e_rnd en)) = Inr response"
    and "response_ok response"
    and "fst (saveTranscriptArtifact (e_lib en) (e_cwd en) (e_now en) fs
               (save_options_of (e_lib en) (item_request shared it) (bodyText response)
                  (rawJson_of (e_lib en) response) (contentType response))) = Inl e"
    and "item_callback en fs shared it index = (r, fs')"
  shows "result_ok r \<and>
         (\<exists>ident src output t.
            r = ListResultSuccess index ident src output \<and>
            get_field output ''saved'' = Some (JBool False) \<and>
            get_field output ''save_error'' = Some (JStr (toErrorMessage e)) \<and>
            get_field output ''transcript'' = Some (JStr t)) \<and>
         failed_count (summarize (before @ r # after)) = failed_count (summarize (before @ after)) \<and>
         ok_count (summarize (before @ r # after)) = Suc (ok_count (summarize (before @ after)))"
proof -
  let ?l = "e_lib en"
  let ?params = "item_request shared it"
  obtain result fs1 where one: "transcribeOne en fs ?params = (result, fs1)" by (cases "transcribeOne en fs ?params")
  have t: "transcribed en fs ?params (bodyText response) (rawJson_of ?l response) (contentType response) = (result, fs1)"
    using transcribeOne_ok[OF assms(1,2,3), of fs] one by simp
  note tr = transcribed_result[OF t]
  note sv = structured_saved[OF tr(3)]
  have r: "r = ListResultSuccess index (if truthy_str (item_id it) then item_id it else None)
      \<lparr>file_path = (if truthy_str (file_path it) then file_path it else None),
       url = (if truthy_str (url it) then url it else None)\<rparr> (structured result)"
    using assms(5) one tr(1) by (simp add: item_callback_def Let_def)
  have 1: "get_field (structured result) ''saved'' = Some (JBool False)"
    and 2: "get_field (structured result) ''save_error'' = Some (JStr (toErrorMessage e))"
    using sv(1,2) assms(4) by simp_all
  have 3: "\<exists>t. get_field (structured result) ''transcript'' = Some (JStr t)"
    using structured_transcript[OF tr(3)] by blast
  have ok: "result_ok r" using r by simp
  show ?thesis using ok r 1 2 3 summarize_ok[OF ok, of before after] by blast
qed

lemma example_read_ok: "read_failure example_env params = None \<longleftrightarrow> file_path params = None"
  by (simp add: read_failure_def example_env_def example_readAudioFile_def split: option.splits)

lemma example_fetched:
  "fst (fetchWithRetry (e_cfg example_env) (e_fetch example_env) (e_rnd example_env)) = Inr example_response"
  by (simp add: example_env_def fetchWithRetry_def fetch_loop.simps[of _ _ _ "Suc 0"] maxAttempts_def
      example_config_def example_fetch_def response_ok_def example_response_def)

lemma example_response_ok: "response_ok example_response"
  by (simp add: response_ok_def example_response_def)

text \<open>C6, witness: the body \<open>{"text":"ok"}\<close> with the encoding \<open>json\<close>.\<close>

theorem transcript_extraction_witness:
  "isError (fst (transcribeOne example_env Map.empty example_request)) = False \<and>
   response_format example_request = JSON \<and>
   json_parse (e_lib example_env) (bodyText example_response) = Some (JObj [(''text'', JStr ''ok'')]) \<and>
   get_field (structured (fst (transcribeOne example_env Map.empty example_request))) ''transcript'' =
     Some (JStr ''ok'')"
proof -
  let ?one = "transcribeOne example_env Map.empty example_request"
  have 1: "read_failure example_env example_request = None"
    by (simp add: example_read_ok example_request_def)
  have 4: "?one = (fst ?one, snd ?one)" by simp
  have f: "response_format example_request = JSON" by (simp add: example_request_def)
  have p: "json_parse (e_lib example_env) (bodyText example_response) = Some (JObj [(''text'', JStr ''ok'')])"
    by (simp add: example_env_def example_lib_def example_response_def example_parse_def example_json_def)
  from transcript_extraction[OF 1 example_fetched example_response_ok 4] f p
  show ?thesis by simp
qed


text \<open>C4, witness: the save-name \<open>intro.txt\<close> with the encoding \<open>json\<close>, whose save fails.\<close>

theorem persistence_failure_keeps_success_witness:
  "fst (saveTranscriptArtifact (e_lib example_env) (e_cwd example_env) (e_now example_env) Map.empty
          (save_options_of (e_lib example_env)
             (item_request example_request (example_item\<lparr>save_as := Some ''intro.txt''\<rparr>))
             (bodyText example_response) (rawJson_of (e_lib example_env) example_response)
             (contentType example_response))) =
     Inl (Error (mismatch_message ''txt'' ''json'')) \<and>
   result_ok (fst (item_callback example_env Map.empty example_request
                     (example_item\<lparr>save_as := Some ''intro.txt''\<rparr>) 0)) \<and>
   failed_count (summarize [fst (item_callback example_env Map.empty example_request
                     (example_item\<lparr>save_as := Some ''intro.txt''\<rparr>) 0)]) = 0 \<and>
   ok_count (summarize [fst (item_callback example_env Map.empty example_request
                     (example_item\<lparr>save_as := Some ''intro.txt''\<rparr>) 0)]) = 1"
proof -
  let ?it = "example_item\<lparr>save_as := Some ''intro.txt''\<rparr>"
  let ?cb = "item_callback example_env Map.empty example_request ?it 0"
  have 1: "read_failure example_env (item_request example_request ?it) = None"
    by (simp add: example_read_ok item_request_def example_item_def truthy_str_def)
  have 4: "fst (saveTranscriptArtifact (e_lib example_env) (e_cwd example_env) (e_now example_env) Map.empty
          (save_options_of (e_lib example_env) (item_request example_request ?it)
             (bodyText example_response) (rawJson_of (e_lib example_env) example_response)
             (contentType example_response))) =
     Inl (Error (mismatch_message ''txt'' ''json''))" by code_simp
  have 5: "?cb = (fst ?cb, snd ?cb)" by simp
  from persistence_failure_keeps_success[OF 1 example_fetched example_response_ok 4 5, of "[]" "[]"] 4
  show ?thesis by (simp add: summarize_def)
qed

end
